theory Spec2Isabelle
  imports Complex_Main "HOL-Library.Word" "HOL-Library.Sublist"
begin

unbundle bit_operations_syntax

section \<open>Common types\<close>

type_synonym u8 = "8 word"
type_synonym u64 = "64 word"
type_synonym u256 = "256 word"
type_synonym address = "160 word"

text \<open>
  Go reports failures in two ways: an \<open>error\<close> value returned to the caller, and a
  panic (an out-of-range index, a nil dereference, \<open>rand.Intn\<close> of a non-positive
  bound, a division by zero, \<open>logging.GlobalLogger.Panic\<close>). Both are values here.
\<close>

datatype error = Err string | Panic string

section \<open>Coverage tracer\<close>

subsection \<open>Data\<close>

text \<open>\<open>vm.OpCode\<close> is a byte; \<open>vm.JUMP\<close> and \<open>vm.JUMPI\<close> are the EVM's 0x56 and 0x57.\<close>

definition JUMP :: u8 where
  "JUMP = 0x56"

definition JUMPI :: u8 where
  "JUMPI = 0x57"

text \<open>
  \<open>vm.ScopeContext\<close>: the stack (a slice whose last element is the top), and the
  executing contract's code and address.
\<close>

record ScopeContext =
  Stack :: "u256 list"
  ContractCode :: "u8 list"
  ContractAddress :: address

text \<open>\<open>Stack.Back(n)\<close> is \<open>data[len(data) - n - 1]\<close>; out of range it panics.\<close>

definition Back :: "u256 list \<Rightarrow> nat \<Rightarrow> error + u256" where
  "Back st n =
     (if n < length st then Inr (st ! (length st - n - 1))
      else Inl (Panic ''index out of range''))"

text \<open>
  \<open>bits.RotateLeft64(x, k)\<close> of Go's standard library, for \<open>k \<ge> 0\<close>:
  \<open>s := uint(k) & 63; return x<<s | x>>(64-s)\<close>.
\<close>

definition RotateLeft64 :: "u64 \<Rightarrow> nat \<Rightarrow> u64" where
  "RotateLeft64 x k = (let s = k mod 64 in push_bit s x OR drop_bit (64 - s) x)"

text \<open>
  The per-frame state of the tracer. \<open>'cm\<close> is the type of \<open>CoverageMaps\<close>, whose
  operations are not part of the sources at hand and are parameters below; \<open>'h\<close> is
  \<open>common.Hash\<close>.
\<close>

record ('cm, 'h) coverageTracerCallFrameState =
  create :: bool
  pendingCoverageMap :: 'cm
  lookupHash :: "'h option"

record ('cm, 'h) CoverageTracer =
  coverageMaps :: 'cm
  callFrameStates :: "('cm, 'h) coverageTracerCallFrameState list"
  callDepth :: u64

subsection \<open>CaptureState\<close>

text \<open>
  The destination \<open>pos\<close> that \<open>CaptureState\<close> computes from the opcode and the stack:
  \<open>None\<close> is the early \<open>return\<close> for every opcode but JUMP and JUMPI.
\<close>

definition CaptureState_pos :: "u64 \<Rightarrow> u8 \<Rightarrow> u256 list \<Rightarrow> error + u256 option" where
  "CaptureState_pos pc op st =
     (if op = JUMPI then
        (case Back st 0 of
           Inl e \<Rightarrow> Inl e
         | Inr pos \<Rightarrow>
            (case Back st 1 of
               Inl e \<Rightarrow> Inl e
             | Inr cond \<Rightarrow>
                 if cond \<noteq> 0 then Inr (Some (ucast pc + 1)) else Inr (Some pos)))
      else if op = JUMP then
        (case Back st 0 of Inl e \<Rightarrow> Inl e | Inr pos \<Rightarrow> Inr (Some pos))
      else Inr None)"

text \<open>\<open>marker := bits.RotateLeft64(pc, 32) ^ pos.Uint64()\<close>; \<open>Uint64\<close> keeps the low 64 bits.\<close>

definition edge_marker :: "u64 \<Rightarrow> u256 \<Rightarrow> u64" where
  "edge_marker pc pos = RotateLeft64 pc 32 XOR ucast pos"

text \<open>
  \<open>CaptureState\<close>. The parameters are \<open>getContractCoverageMapHash\<close> and
  \<open>CoverageMaps.SetAt\<close>; an error of \<open>SetAt\<close> is turned into a panic by the logger.
\<close>

definition CaptureState ::
  "(u8 list \<Rightarrow> bool \<Rightarrow> 'h) \<Rightarrow> ('cm \<Rightarrow> address \<Rightarrow> 'h \<Rightarrow> nat \<Rightarrow> u64 \<Rightarrow> error + 'cm) \<Rightarrow>
   ('cm, 'h) CoverageTracer \<Rightarrow> u64 \<Rightarrow> u8 \<Rightarrow> ScopeContext \<Rightarrow> error + ('cm, 'h) CoverageTracer" where
  "CaptureState getContractCoverageMapHash SetAt t pc op scope =
     (if unat (callDepth t) < length (callFrameStates t) then
        (let callFrameState = callFrameStates t ! unat (callDepth t) in
         case CaptureState_pos pc op (Stack scope) of
           Inl e \<Rightarrow> Inl e
         | Inr None \<Rightarrow> Inr t
         | Inr (Some pos) \<Rightarrow>
            (let h = (case lookupHash callFrameState of
                        None \<Rightarrow> getContractCoverageMapHash (ContractCode scope) (create callFrameState)
                      | Some h \<Rightarrow> h);
                 marker = edge_marker pc pos
             in case SetAt (pendingCoverageMap callFrameState) (ContractAddress scope) h
                       (length (ContractCode scope)) marker of
                  Inl e \<Rightarrow> Inl (Panic ''Coverage tracer failed to update coverage map while tracing state'')
                | Inr cm \<Rightarrow>
                    Inr (t\<lparr>callFrameStates := (callFrameStates t)[unat (callDepth t) :=
                              callFrameState\<lparr>lookupHash := Some h, pendingCoverageMap := cm\<rparr>]\<rparr>)))
      else Inl (Panic ''index out of range''))"

subsection \<open>Decoding markers\<close>

text \<open>
  \<open>getExecFlagsMapping\<close> splits each marker into \<open>dst := marker & 0xFFFFFFFF\<close> and
  \<open>src := marker >> 32\<close> and files the hit count under both orders. The Go map it ranges
  over is an association list here; its keys are distinct, so the order of the range does
  not matter.
\<close>

definition marker_dst :: "u64 \<Rightarrow> u64" where
  "marker_dst marker = marker AND 0xFFFFFFFF"

definition marker_src :: "u64 \<Rightarrow> u64" where
  "marker_src marker = drop_bit 32 marker"

type_synonym flags_mapping = "u64 \<rightharpoonup> (u64 \<rightharpoonup> nat)"

definition set_nested :: "flags_mapping \<Rightarrow> u64 \<Rightarrow> u64 \<Rightarrow> nat \<Rightarrow> flags_mapping" where
  "set_nested m a b hitCount =
     (let inner = (case m a of None \<Rightarrow> Map.empty | Some i \<Rightarrow> i)
      in m(a \<mapsto> inner(b \<mapsto> hitCount)))"

fun getExecFlagsMapping_loop ::
  "(u64 \<times> nat) list \<Rightarrow> flags_mapping \<times> flags_mapping \<Rightarrow> flags_mapping \<times> flags_mapping" where
  "getExecFlagsMapping_loop [] acc = acc"
| "getExecFlagsMapping_loop ((marker, hitCount) # rest) (execFlagsSrcDst, execFlagsDstSrc) =
     (let dst = marker_dst marker; src = marker_src marker
      in getExecFlagsMapping_loop rest
           (set_nested execFlagsSrcDst src dst hitCount,
            set_nested execFlagsDstSrc dst src hitCount))"

definition getExecFlagsMapping :: "(u64 \<times> nat) list \<Rightarrow> flags_mapping \<times> flags_mapping" where
  "getExecFlagsMapping execFlags = getExecFlagsMapping_loop execFlags (Map.empty, Map.empty)"

subsection \<open>Results attached to message results\<close>

definition coverageTracerResultsKey :: string where
  "coverageTracerResultsKey = ''CoverageTracerResults''"

text \<open>
  \<open>AdditionalResults\<close> is a \<open>map[string]any\<close>. A value of type \<open>any\<close> is a nil interface,
  a \<open>*CoverageMaps\<close> (possibly a nil pointer), or a value of another dynamic type.
\<close>

datatype ('cm, 'o) any = NilInterface | CoverageMapsPtr "'cm option" | OtherValue 'o

record ('cm, 'o) MessageResults =
  AdditionalResults :: "string \<rightharpoonup> ('cm, 'o) any"

definition GetCoverageTracerResults :: "('cm, 'o) MessageResults \<Rightarrow> 'cm option" where
  "GetCoverageTracerResults messageResults =
     (case AdditionalResults messageResults coverageTracerResultsKey of
        Some (CoverageMapsPtr castedResult) \<Rightarrow> castedResult
      | _ \<Rightarrow> None)"

definition RemoveCoverageTracerResults :: "('cm, 'o) MessageResults \<Rightarrow> ('cm, 'o) MessageResults" where
  "RemoveCoverageTracerResults messageResults =
     messageResults\<lparr>AdditionalResults := (AdditionalResults messageResults)(coverageTracerResultsKey := None)\<rparr>"

definition CaptureTxEndSetAdditionalResults ::
  "('cm, 'h) CoverageTracer \<Rightarrow> ('cm, 'o) MessageResults \<Rightarrow> ('cm, 'o) MessageResults" where
  "CaptureTxEndSetAdditionalResults t results =
     results\<lparr>AdditionalResults :=
       (AdditionalResults results)(coverageTracerResultsKey \<mapsto> CoverageMapsPtr (Some (coverageMaps t)))\<rparr>"

section \<open>Go slices\<close>

text \<open>
  \<open>callSeqGenFuncExpansion\<close> receives the generator's base sequence as a slice value and
  grows it with \<open>append\<close>. Whether the caller sees any of that depends on the backing
  arrays, so this part has an explicit store: arrays of element pointers (\<open>None\<close> is
  nil) by identifier, and slices as views (array, offset, length, capacity).
\<close>

record 'p heap =
  arrays :: "nat \<Rightarrow> 'p option list"
  next_id :: nat

record slice =
  sl_ptr :: nat
  sl_off :: nat
  sl_len :: nat
  sl_cap :: nat

definition slice_read :: "'p heap \<Rightarrow> slice \<Rightarrow> 'p option list" where
  "slice_read h s = take (sl_len s) (drop (sl_off s) (arrays h (sl_ptr s)))"

text \<open>\<open>make([]T, n)\<close>: a fresh array of \<open>n\<close> nil cells, length and capacity \<open>n\<close>.\<close>

definition go_make :: "'p heap \<Rightarrow> nat \<Rightarrow> 'p heap \<times> slice" where
  "go_make h n =
     (h\<lparr>arrays := (arrays h)(next_id h := replicate n None), next_id := Suc (next_id h)\<rparr>,
      \<lparr>sl_ptr = next_id h, sl_off = 0, sl_len = n, sl_cap = n\<rparr>)"

text \<open>The composite literal \<open>[]T{x}\<close>: a fresh array of one cell.\<close>

definition go_literal1 :: "'p heap \<Rightarrow> 'p option \<Rightarrow> 'p heap \<times> slice" where
  "go_literal1 h x =
     (h\<lparr>arrays := (arrays h)(next_id h := [x]), next_id := Suc (next_id h)\<rparr>,
      \<lparr>sl_ptr = next_id h, sl_off = 0, sl_len = 1, sl_cap = 1\<rparr>)"

text \<open>\<open>s[a:b]\<close> shares the array; it panics unless \<open>a \<le> b \<le> cap(s)\<close>.\<close>

definition go_reslice :: "slice \<Rightarrow> nat \<Rightarrow> nat \<Rightarrow> error + slice" where
  "go_reslice s a b =
     (if a \<le> b \<and> b \<le> sl_cap s
      then Inr \<lparr>sl_ptr = sl_ptr s, sl_off = sl_off s + a, sl_len = b - a, sl_cap = sl_cap s - a\<rparr>
      else Inl (Panic ''slice bounds out of range''))"

definition go_index :: "'p heap \<Rightarrow> slice \<Rightarrow> nat \<Rightarrow> error + 'p option" where
  "go_index h s i =
     (if i < sl_len s \<and> sl_off s + i < length (arrays h (sl_ptr s))
      then Inr (arrays h (sl_ptr s) ! (sl_off s + i))
      else Inl (Panic ''index out of range''))"

definition list_write :: "'a list \<Rightarrow> nat \<Rightarrow> 'a list \<Rightarrow> 'a list" where
  "list_write arr pos xs = take pos arr @ xs @ drop (pos + length xs) arr"

text \<open>
  \<open>append(s, xs...)\<close>: within capacity the values are written into the shared array
  behind the slice; otherwise a new array is allocated and the old one is left as it
  was. The capacity of the new array is the runtime's choice: \<open>growcap\<close>, never less than
  what is needed.
\<close>

definition go_append ::
  "(nat \<Rightarrow> nat \<Rightarrow> nat) \<Rightarrow> 'p heap \<Rightarrow> slice \<Rightarrow> 'p option list \<Rightarrow> 'p heap \<times> slice" where
  "go_append growcap h s xs =
     (let needed = sl_len s + length xs in
      if needed \<le> sl_cap s then
        (h\<lparr>arrays := (arrays h)(sl_ptr s :=
              list_write (arrays h (sl_ptr s)) (sl_off s + sl_len s) xs)\<rparr>,
         s\<lparr>sl_len := needed\<rparr>)
      else
        (let newcap = max needed (growcap (sl_cap s) needed) in
         (h\<lparr>arrays := (arrays h)(next_id h :=
               slice_read h s @ xs @ replicate (newcap - needed) None),
             next_id := Suc (next_id h)\<rparr>,
          \<lparr>sl_ptr = next_id h, sl_off = 0, sl_len = needed, sl_cap = newcap\<rparr>)))"

section \<open>Random source\<close>

text \<open>
  \<open>*rand.Rand\<close> is a stream of raw draws. \<open>Intn(n)\<close> panics for \<open>n \<le> 0\<close> and
  otherwise yields a value below \<open>n\<close>: the raw draw reduced into range. \<open>Int()\<close> is the
  raw draw; \<open>Float32()\<close> is \<open>k / 2 ^ 24\<close> for some \<open>k < 2 ^ 24\<close>.
\<close>

type_synonym rand = "nat \<Rightarrow> nat"

definition rand_next :: "rand \<Rightarrow> nat \<times> rand" where
  "rand_next r = (r 0, \<lambda>i. r (Suc i))"

definition Intn :: "rand \<Rightarrow> nat \<Rightarrow> error + (nat \<times> rand)" where
  "Intn r n =
     (if n = 0 then Inl (Panic ''invalid argument to Intn'')
      else Inr (fst (rand_next r) mod n, snd (rand_next r)))"

definition Float32 :: "rand \<Rightarrow> rat \<times> rand" where
  "Float32 r = (of_nat (fst (rand_next r) mod 2 ^ 24) / 2 ^ 24, snd (rand_next r))"

section \<open>Calls and call sequences\<close>

text \<open>
  \<open>abi.Method\<close> and \<open>abi.Type\<close> belong to go-ethereum; a type is its name here, and
  \<open>'v\<close> is the type of ABI values.
\<close>

record Method =
  MethodName :: string
  Inputs :: "string list"
  StateMutability :: string

record 'v CallMessageDataAbiValues =
  AbiMethod :: Method
  InputValues :: "'v list"

record 'v CallMessage =
  From :: address
  To :: "address option"
  Nonce :: u64
  Value :: nat
  GasLimit :: u64
  GasPrice :: "nat option"
  GasFeeCap :: "nat option"
  GasTipCap :: "nat option"
  DataAbiValues :: "'v CallMessageDataAbiValues option"

text \<open>\<open>types.ReceiptStatusFailed\<close> and \<open>types.ReceiptStatusSuccessful\<close> of go-ethereum.\<close>

definition ReceiptStatusFailed :: u64 where
  "ReceiptStatusFailed = 0"

definition ReceiptStatusSuccessful :: u64 where
  "ReceiptStatusSuccessful = 1"

record Receipt =
  Status :: u64
  GasUsed :: u64

text \<open>
  The chain reference of an executed element: the receipts of the message results of
  its block (all the worker reads of them), and the index of its transaction there.
\<close>

record CallSequenceElementChainReference =
  BlockMessageResults :: "Receipt list"
  TransactionIndex :: nat

record 'v CallSequenceElement =
  Contract :: nat
  Call :: "'v CallMessage option"
  BlockNumberDelay :: u64
  BlockTimestampDelay :: u64
  ChainReference :: "CallSequenceElementChainReference option"

text \<open>A call sequence is a slice of element pointers; \<open>None\<close> is nil.\<close>

type_synonym 'v CallSequence = "'v CallSequenceElement option list"

record DeployedContractMethod =
  dcm_Address :: address
  dcm_Contract :: nat
  dcm_Method :: Method

definition NewCallMessageWithAbiValueData ::
  "address \<Rightarrow> address option \<Rightarrow> u64 \<Rightarrow> nat \<Rightarrow> u64 \<Rightarrow> nat option \<Rightarrow> nat option \<Rightarrow> nat option \<Rightarrow>
   'v CallMessageDataAbiValues option \<Rightarrow> 'v CallMessage" where
  "NewCallMessageWithAbiValueData from to nonce val gasLimit gasPrice gasFeeCap gasTipCap abiData =
     \<lparr>From = from, To = to, Nonce = nonce, Value = val, GasLimit = gasLimit, GasPrice = gasPrice,
      GasFeeCap = gasFeeCap, GasTipCap = gasTipCap, DataAbiValues = abiData\<rparr>"

definition NewCallSequenceElement ::
  "nat \<Rightarrow> 'v CallMessage \<Rightarrow> u64 \<Rightarrow> u64 \<Rightarrow> 'v CallSequenceElement" where
  "NewCallSequenceElement contract call blockNumberDelay blockTimestampDelay =
     \<lparr>Contract = contract, Call = Some call, BlockNumberDelay = blockNumberDelay,
      BlockTimestampDelay = blockTimestampDelay, ChainReference = None\<rparr>"

text \<open>Go's built-in \<open>copy(dst, src)\<close> overwrites the first \<open>min(len(dst), len(src))\<close> cells.\<close>

definition go_copy :: "'a list \<Rightarrow> 'a list \<Rightarrow> 'a list" where
  "go_copy dst src = (let n = min (length dst) (length src) in take n src @ drop n dst)"

section \<open>The worker and what surrounds it\<close>

datatype generator_func =
  CorpusHead | CorpusTail | Expansion | SpliceAtRandom | InterleaveAtRandom

datatype prefetch_func = Mutate

record CallSequenceGeneratorMutationStrategy =
  CallSequenceGeneratorFunc :: "generator_func option"
  PrefetchModifyCallFunc :: "prefetch_func option"

datatype mutator = GeneralMutator | ShrinkingMutator

datatype event =
  FuzzerWorkerChainCreated | FuzzerWorkerChainSetup | CallSequenceTesting | CallSequenceTested

text \<open>
  A shrink request, as a test function hands it to the worker. \<open>'w\<close> is the state of
  everything the worker reaches only through calls into other packages: its chain, the
  corpus, the fuzzer's context, event subscribers, value generators.
\<close>

record ('w, 'v) ShrinkCallSequenceRequest =
  VerifierFunction :: "'v CallSequence \<Rightarrow> 'w \<Rightarrow> 'w \<times> (error + bool)"
  FinishedCallback :: "'v CallSequence \<Rightarrow> bool \<Rightarrow> 'w \<Rightarrow> 'w \<times> error option"
  RecordResultInCorpus :: bool

record FuzzingConfig =
  WorkerResetLimit :: int
  CallSequenceLength :: int
  ShrinkLimit :: u64
  MaxBlockNumberDelay :: u64
  MaxBlockTimestampDelay :: u64
  TransactionGasLimit :: u64
  TraceAll :: bool
  senders :: "address list"

record CallSequenceGeneratorConfig =
  NewSequenceProbability :: rat
  RandomUnmodifiedCorpusHeadWeight :: u64
  RandomUnmodifiedCorpusTailWeight :: u64
  RandomUnmodifiedSpliceAtRandomWeight :: u64
  RandomUnmodifiedInterleaveAtRandomWeight :: u64
  RandomMutatedCorpusHeadWeight :: u64
  RandomMutatedCorpusTailWeight :: u64
  RandomMutatedSpliceAtRandomWeight :: u64
  RandomMutatedInterleaveAtRandomWeight :: u64

text \<open>
  The operations of those packages, as the worker and its generator call them. Each
  takes the outside state and returns the new one with its Go results; an
  \<open>error option\<close> is Go's \<open>error\<close> (\<open>None\<close> is nil).
  \<^item> chain: \<open>HeadBlockNumber\<close>, \<open>RevertToBlockNumber\<close>, \<open>Clone\<close> (with the worker's
    initializer) and \<open>Close\<close>; \<open>ExecuteElement\<close> is the step of
    \<open>calls.ExecuteCallSequenceIteratively\<close> that mines one element and returns it with its
    chain reference; \<open>FillFromTestChainProperties\<close> stamps a call from the chain's state;
  \<^item> \<open>CheckContextDone\<close> polls the fuzzer's context;
  \<^item> corpus: \<open>UnexecutedCallSequence\<close>, \<open>ActiveMutableSequenceCount\<close>,
    \<open>RandomMutationTargetSequence\<close>, \<open>CheckSequenceCoverageAndUpdate\<close>,
    \<open>AddTestResultCallSequence\<close>;
  \<^item> \<open>Choose\<close> of the weighted random chooser, given its choices;
  \<^item> values: \<open>GenerateAbiValue\<close>, \<open>GenerateInteger(false, 64)\<close>, and \<open>MutateAbiValue\<close>,
    which returns a value and an error as in Go;
  \<^item> \<open>CallSequenceTestFuncs\<close>, the fuzzer's hooks; \<open>Publish\<close> of the worker's event
    emitters; \<open>CloneError\<close>, the error of \<open>CallSequence.Clone\<close>, if any (a clone that
    succeeds is a deep copy: an equal value);
  \<^item> \<open>growcap\<close>, the capacity the runtime picks for a grown slice.
  The configuration is read-only after start-up and is carried along with them.
\<close>

record ('w, 'v) externals =
  HeadBlockNumber :: "'w \<Rightarrow> u64"
  RevertToBlockNumber :: "u64 \<Rightarrow> 'w \<Rightarrow> 'w \<times> error option"
  CloneChain :: "'w \<Rightarrow> 'w \<times> error option"
  CloseChain :: "'w \<Rightarrow> 'w"
  ExecuteElement :: "'v CallSequenceElement \<Rightarrow> 'w \<Rightarrow> 'w \<times> (error + 'v CallSequenceElement)"
  FillFromTestChainProperties :: "'v CallMessage \<Rightarrow> 'w \<Rightarrow> 'v CallMessage"
  CheckContextDone :: "'w \<Rightarrow> 'w \<times> bool"
  UnexecutedCallSequence :: "'w \<Rightarrow> 'w \<times> 'v CallSequence option"
  ActiveMutableSequenceCount :: "'w \<Rightarrow> nat"
  RandomMutationTargetSequence :: "'w \<Rightarrow> 'w \<times> (error + 'v CallSequence)"
  CheckSequenceCoverageAndUpdate :: "'v CallSequence \<Rightarrow> nat \<Rightarrow> bool \<Rightarrow> 'w \<Rightarrow> 'w \<times> error option"
  AddTestResultCallSequence :: "'v CallSequence \<Rightarrow> nat \<Rightarrow> bool \<Rightarrow> 'w \<Rightarrow> 'w \<times> error option"
  Choose :: "(CallSequenceGeneratorMutationStrategy \<times> nat) list \<Rightarrow> 'w \<Rightarrow>
             'w \<times> (error + CallSequenceGeneratorMutationStrategy option)"
  GenerateAbiValue :: "string \<Rightarrow> 'w \<Rightarrow> 'w \<times> 'v"
  GenerateInteger :: "'w \<Rightarrow> 'w \<times> nat"
  MutateAbiValue :: "mutator \<Rightarrow> string \<Rightarrow> 'v \<Rightarrow> 'w \<Rightarrow> 'w \<times> 'v \<times> error option"
  CallSequenceTestFuncs ::
    "('v CallSequence \<Rightarrow> 'w \<Rightarrow> 'w \<times> (error + ('w, 'v) ShrinkCallSequenceRequest list)) list"
  Publish :: "event \<Rightarrow> 'w \<Rightarrow> 'w \<times> error option"
  CloneError :: "'v CallSequence \<Rightarrow> error option"
  growcap :: "nat \<Rightarrow> nat \<Rightarrow> nat"
  config :: FuzzingConfig
  gen_config :: CallSequenceGeneratorConfig

record 'v CallSequenceGenerator =
  baseSequence :: "'v CallSequence"
  fetchIndex :: nat
  prefetchModifyCallFunc :: "prefetch_func option"

record fuzzerWorkerMetrics =
  sequencesTested :: nat
  callsTested :: nat
  gasUsed :: nat
  workerStartupCount :: nat
  shrinking :: bool

record ('w, 'v) FuzzerWorker =
  outside :: 'w
  testingBaseBlockNumber :: u64
  stateChangingMethods :: "DeployedContractMethod list"
  pureMethods :: "DeployedContractMethod list"
  randomProvider :: rand
  sequenceGenerator :: "'v CallSequenceGenerator"
  workerMetrics :: fuzzerWorkerMetrics

text \<open>
  \<open>fmt.Errorf\<close> around an error gives a new error; a panic is not an error value and
  passes through.
\<close>

fun wrap_err :: "string \<Rightarrow> error \<Rightarrow> error" where
  "wrap_err msg (Err e) = Err msg"
| "wrap_err msg (Panic p) = Panic p"

text \<open>Threading the random source and the outside state through the worker.\<close>

definition worker_Intn :: "('w, 'v) FuzzerWorker \<Rightarrow> nat \<Rightarrow> ('w, 'v) FuzzerWorker \<times> (error + nat)" where
  "worker_Intn fw n =
     (case Intn (randomProvider fw) n of
        Inl e \<Rightarrow> (fw, Inl e)
      | Inr (x, r) \<Rightarrow> (fw\<lparr>randomProvider := r\<rparr>, Inr x))"

definition on_outside :: "('w \<Rightarrow> 'w \<times> 'a) \<Rightarrow> ('w, 'v) FuzzerWorker \<Rightarrow> ('w, 'v) FuzzerWorker \<times> 'a" where
  "on_outside f fw = (case f (outside fw) of (w, a) \<Rightarrow> (fw\<lparr>outside := w\<rparr>, a))"

section \<open>Call sequence generator\<close>

subsection \<open>Mutation strategies\<close>

text \<open>The choices \<open>NewCallSequenceGenerator\<close> registers, with their weights.\<close>

definition mutationStrategyChoices ::
  "CallSequenceGeneratorConfig \<Rightarrow> (CallSequenceGeneratorMutationStrategy \<times> nat) list" where
  "mutationStrategyChoices c =
     [(\<lparr>CallSequenceGeneratorFunc = Some CorpusHead, PrefetchModifyCallFunc = None\<rparr>,
         unat (RandomUnmodifiedCorpusHeadWeight c)),
      (\<lparr>CallSequenceGeneratorFunc = Some CorpusTail, PrefetchModifyCallFunc = None\<rparr>,
         unat (RandomUnmodifiedCorpusTailWeight c)),
      (\<lparr>CallSequenceGeneratorFunc = Some Expansion, PrefetchModifyCallFunc = None\<rparr>,
         unat (RandomUnmodifiedCorpusTailWeight c)),
      (\<lparr>CallSequenceGeneratorFunc = Some SpliceAtRandom, PrefetchModifyCallFunc = None\<rparr>,
         unat (RandomUnmodifiedSpliceAtRandomWeight c)),
      (\<lparr>CallSequenceGeneratorFunc = Some InterleaveAtRandom, PrefetchModifyCallFunc = None\<rparr>,
         unat (RandomUnmodifiedInterleaveAtRandomWeight c)),
      (\<lparr>CallSequenceGeneratorFunc = Some CorpusHead, PrefetchModifyCallFunc = Some Mutate\<rparr>,
         unat (RandomMutatedCorpusHeadWeight c)),
      (\<lparr>CallSequenceGeneratorFunc = Some CorpusTail, PrefetchModifyCallFunc = Some Mutate\<rparr>,
         unat (RandomMutatedCorpusTailWeight c)),
      (\<lparr>CallSequenceGeneratorFunc = Some SpliceAtRandom, PrefetchModifyCallFunc = Some Mutate\<rparr>,
         unat (RandomMutatedSpliceAtRandomWeight c)),
      (\<lparr>CallSequenceGeneratorFunc = Some InterleaveAtRandom, PrefetchModifyCallFunc = Some Mutate\<rparr>,
         unat (RandomMutatedInterleaveAtRandomWeight c))]"

text \<open>
  A strategy receives the generator's base sequence as \<open>sequence\<close> and writes into it in
  place. Each function below returns the contents the generator sees afterwards.
\<close>

definition callSeqGenFuncCorpusHead ::
  "('w, 'v) externals \<Rightarrow> ('w, 'v) FuzzerWorker \<Rightarrow> 'v CallSequence \<Rightarrow>
   ('w, 'v) FuzzerWorker \<times> (error + 'v CallSequence)" where
  "callSeqGenFuncCorpusHead x fw sequence =
     (case on_outside (RandomMutationTargetSequence x) fw of
        (fw1, Inl e) \<Rightarrow> (fw1, Inl (wrap_err ''could not obtain corpus call sequence for head mutation'' e))
      | (fw1, Inr corpusSequence) \<Rightarrow>
          (let maxLength = min (length sequence) (length corpusSequence)
           in (fw1, Inr (go_copy sequence (take maxLength corpusSequence)))))"

definition callSeqGenFuncCorpusTail ::
  "('w, 'v) externals \<Rightarrow> ('w, 'v) FuzzerWorker \<Rightarrow> 'v CallSequence \<Rightarrow>
   ('w, 'v) FuzzerWorker \<times> (error + 'v CallSequence)" where
  "callSeqGenFuncCorpusTail x fw sequence =
     (case on_outside (RandomMutationTargetSequence x) fw of
        (fw1, Inl e) \<Rightarrow> (fw1, Inl (wrap_err ''could not obtain corpus call sequence for tail mutation'' e))
      | (fw1, Inr corpusSequence) \<Rightarrow>
          (let maxLength = min (length sequence) (length corpusSequence) in
           case worker_Intn fw1 maxLength of
             (fw2, Inl e) \<Rightarrow> (fw2, Inl e)
           | (fw2, Inr n) \<Rightarrow>
               (let targetLength = n + 1
                in (fw2, Inr (take (length sequence - targetLength) sequence @
                              go_copy (drop (length sequence - targetLength) sequence)
                                      (drop (length corpusSequence - targetLength) corpusSequence))))))"

text \<open>
  \<open>callSeqGenFuncExpansion\<close> on the store. Its loop, with \<open>n\<close> the rounds still to run;
  the result is the function's own \<open>sequence\<close> variable at the end.
\<close>

fun callSeqGenFuncExpansion_loop ::
  "(nat \<Rightarrow> nat \<Rightarrow> nat) \<Rightarrow> 'p option \<Rightarrow> nat \<Rightarrow> nat \<Rightarrow> nat \<Rightarrow> 'p heap \<Rightarrow> slice \<Rightarrow>
   'p heap \<times> (error + slice)" where
  "callSeqGenFuncExpansion_loop gc duplicatedElement 0 i randIndex h sequence = (h, Inr sequence)"
| "callSeqGenFuncExpansion_loop gc duplicatedElement (Suc n) i randIndex h sequence =
     (let randIndex' = randIndex + i in
      if randIndex' < sl_len sequence then
        (case go_literal1 h duplicatedElement of
           (h1, lit) \<Rightarrow>
            (case go_reslice sequence randIndex' (sl_len sequence) of
               Inl e \<Rightarrow> (h1, Inl e)
             | Inr tailSlice \<Rightarrow>
                (case go_append gc h1 lit (slice_read h1 tailSlice) of
                   (h2, inner) \<Rightarrow>
                    (case go_reslice sequence 0 randIndex' of
                       Inl e \<Rightarrow> (h2, Inl e)
                     | Inr headSlice \<Rightarrow>
                        (case go_append gc h2 headSlice (slice_read h2 inner) of
                           (h3, sequence') \<Rightarrow>
                             callSeqGenFuncExpansion_loop gc duplicatedElement n (i + 1) randIndex'
                               h3 sequence')))))
      else
        (case go_append gc h sequence [duplicatedElement] of
           (h1, sequence') \<Rightarrow>
             callSeqGenFuncExpansion_loop gc duplicatedElement n (i + 1) randIndex' h1 sequence'))"

definition callSeqGenFuncExpansion_store ::
  "(nat \<Rightarrow> nat \<Rightarrow> nat) \<Rightarrow> rand \<Rightarrow> 'p heap \<Rightarrow> slice \<Rightarrow> rand \<times> 'p heap \<times> (error + slice)" where
  "callSeqGenFuncExpansion_store gc r h sequence =
     (case Intn r 31 of
        Inl e \<Rightarrow> (r, h, Inl e)
      | Inr (rounds, r1) \<Rightarrow>
         (case Intn r1 (sl_len sequence) of
            Inl e \<Rightarrow> (r1, h, Inl e)
          | Inr (randIndex, r2) \<Rightarrow>
             (case go_index h sequence randIndex of
                Inl e \<Rightarrow> (r2, h, Inl e)
              | Inr duplicatedElement \<Rightarrow>
                 (case callSeqGenFuncExpansion_loop gc duplicatedElement rounds 0 randIndex h sequence of
                    (h', res) \<Rightarrow> (r2, h', res)))))"

text \<open>
  The base sequence handed to a strategy is the one \<open>InitializeNextSequence\<close> has just
  made with \<open>make(calls.CallSequence, n)\<close>: a slice over the whole of its own array.
  What the generator sees after \<open>callSeqGenFuncExpansion\<close> is that slice, read again.
\<close>

definition base_heap :: "'p option list \<Rightarrow> 'p heap" where
  "base_heap sequence = \<lparr>arrays = (\<lambda>i. if i = 0 then sequence else []), next_id = 1\<rparr>"

definition base_slice :: "'p option list \<Rightarrow> slice" where
  "base_slice sequence = \<lparr>sl_ptr = 0, sl_off = 0, sl_len = length sequence, sl_cap = length sequence\<rparr>"

definition callSeqGenFuncExpansion ::
  "('w, 'v) externals \<Rightarrow> ('w, 'v) FuzzerWorker \<Rightarrow> 'v CallSequence \<Rightarrow>
   ('w, 'v) FuzzerWorker \<times> (error + 'v CallSequence)" where
  "callSeqGenFuncExpansion x fw sequence =
     (case callSeqGenFuncExpansion_store (growcap x) (randomProvider fw)
             (base_heap sequence) (base_slice sequence) of
        (r, h, Inl e) \<Rightarrow> (fw\<lparr>randomProvider := r\<rparr>, Inl e)
      | (r, h, Inr local) \<Rightarrow> (fw\<lparr>randomProvider := r\<rparr>, Inr (slice_read h (base_slice sequence))))"

definition callSeqGenFuncSpliceAtRandom ::
  "('w, 'v) externals \<Rightarrow> ('w, 'v) FuzzerWorker \<Rightarrow> 'v CallSequence \<Rightarrow>
   ('w, 'v) FuzzerWorker \<times> (error + 'v CallSequence)" where
  "callSeqGenFuncSpliceAtRandom x fw sequence =
     (case on_outside (RandomMutationTargetSequence x) fw of
        (fw1, Inl e) \<Rightarrow>
          (fw1, Inl (wrap_err ''could not obtain head corpus call sequence for splice-at-random corpus mutation'' e))
      | (fw1, Inr headSequence) \<Rightarrow>
         (case on_outside (RandomMutationTargetSequence x) fw1 of
            (fw2, Inl e) \<Rightarrow>
              (fw2, Inl (wrap_err ''could not obtain tail corpus call sequence for splice-at-random corpus mutation'' e))
          | (fw2, Inr tailSequence) \<Rightarrow>
             (case worker_Intn fw2 (min (length sequence) (length headSequence)) of
                (fw3, Inl e) \<Rightarrow> (fw3, Inl e)
              | (fw3, Inr n) \<Rightarrow>
                 (let headSequenceLength = n + 1;
                      sequence1 = go_copy sequence (take headSequenceLength headSequence);
                      maxLength = min (length sequence1 - headSequenceLength) (length tailSequence)
                  in case worker_Intn fw3 (maxLength + 1) of
                       (fw4, Inl e) \<Rightarrow> (fw4, Inl e)
                     | (fw4, Inr tailSequenceLength) \<Rightarrow>
                         (fw4, Inr (take headSequenceLength sequence1 @
                                    go_copy (drop headSequenceLength sequence1)
                                      (drop (length tailSequence - tailSequenceLength) tailSequence)))))))"

text \<open>
  The interleaving loop of \<open>callSeqGenFuncInterleaveAtRandom\<close>, with \<open>n\<close> the iterations
  still to run. An assignment \<open>sequence[destIndex] = ...\<close> out of range panics.
\<close>

definition interleave_put ::
  "'a list \<Rightarrow> nat \<Rightarrow> nat \<times> 'a list \<Rightarrow> error + (nat \<times> 'a list)" where
  "interleave_put src i st =
     (case st of (destIndex, sequence) \<Rightarrow>
        if i < length src then
          (if destIndex < length sequence
           then Inr (destIndex + 1, sequence[destIndex := src ! i])
           else Inl (Panic ''index out of range''))
        else Inr (destIndex, sequence))"

fun interleave_loop ::
  "nat \<Rightarrow> nat \<Rightarrow> 'a list \<Rightarrow> 'a list \<Rightarrow> nat \<times> 'a list \<Rightarrow> error + 'a list" where
  "interleave_loop 0 i firstSequence secondSequence st = Inr (snd st)"
| "interleave_loop (Suc n) i firstSequence secondSequence st =
     (case interleave_put firstSequence i st of
        Inl e \<Rightarrow> Inl e
      | Inr st1 \<Rightarrow>
         (case interleave_put secondSequence i st1 of
            Inl e \<Rightarrow> Inl e
          | Inr st2 \<Rightarrow> interleave_loop n (i + 1) firstSequence secondSequence st2))"

definition callSeqGenFuncInterleaveAtRandom ::
  "('w, 'v) externals \<Rightarrow> ('w, 'v) FuzzerWorker \<Rightarrow> 'v CallSequence \<Rightarrow>
   ('w, 'v) FuzzerWorker \<times> (error + 'v CallSequence)" where
  "callSeqGenFuncInterleaveAtRandom x fw sequence =
     (case on_outside (RandomMutationTargetSequence x) fw of
        (fw1, Inl e) \<Rightarrow>
          (fw1, Inl (wrap_err ''could not obtain first corpus call sequence for interleave-at-random corpus mutation'' e))
      | (fw1, Inr firstSequence0) \<Rightarrow>
         (case on_outside (RandomMutationTargetSequence x) fw1 of
            (fw2, Inl e) \<Rightarrow>
              (fw2, Inl (wrap_err ''could not obtain second corpus call sequence for interleave-at-random corpus mutation'' e))
          | (fw2, Inr secondSequence0) \<Rightarrow>
             (case worker_Intn fw2 (min (length sequence) (length firstSequence0)) of
                (fw3, Inl e) \<Rightarrow> (fw3, Inl e)
              | (fw3, Inr n) \<Rightarrow>
                 (let firstSequenceLength = n + 1;
                      firstSequence = take firstSequenceLength firstSequence0;
                      maxLength = min (length sequence - firstSequenceLength) (length secondSequence0)
                  in case worker_Intn fw3 (maxLength + 1) of
                       (fw4, Inl e) \<Rightarrow> (fw4, Inl e)
                     | (fw4, Inr secondSequenceLength) \<Rightarrow>
                         (let secondSequence = take secondSequenceLength secondSequence0;
                              largestSequenceSize = max firstSequenceLength secondSequenceLength
                          in (fw4, interleave_loop largestSequenceSize 0 firstSequence secondSequence
                                     (0, sequence)))))))"

definition run_generator_func ::
  "('w, 'v) externals \<Rightarrow> generator_func \<Rightarrow> ('w, 'v) FuzzerWorker \<Rightarrow> 'v CallSequence \<Rightarrow>
   ('w, 'v) FuzzerWorker \<times> (error + 'v CallSequence)" where
  "run_generator_func x f fw sequence =
     (case f of
        CorpusHead \<Rightarrow> callSeqGenFuncCorpusHead x fw sequence
      | CorpusTail \<Rightarrow> callSeqGenFuncCorpusTail x fw sequence
      | Expansion \<Rightarrow> callSeqGenFuncExpansion x fw sequence
      | SpliceAtRandom \<Rightarrow> callSeqGenFuncSpliceAtRandom x fw sequence
      | InterleaveAtRandom \<Rightarrow> callSeqGenFuncInterleaveAtRandom x fw sequence)"

subsection \<open>Fresh elements\<close>

fun generate_args :: "('w, 'v) externals \<Rightarrow> string list \<Rightarrow> 'w \<Rightarrow> 'w \<times> 'v list" where
  "generate_args x [] w = (w, [])"
| "generate_args x (inputType # rest) w =
     (case GenerateAbiValue x inputType w of
        (w1, v) \<Rightarrow> (case generate_args x rest w1 of (w2, vs) \<Rightarrow> (w2, v # vs)))"

text \<open>
  A delay is drawn only for a positive maximum: \<open>GenerateInteger(false, 64).Uint64() % (max + 1)\<close>.
  For the largest \<open>uint64\<close> the divisor wraps to zero and the division panics.
\<close>

definition sample_delay :: "('w, 'v) externals \<Rightarrow> u64 \<Rightarrow> 'w \<Rightarrow> 'w \<times> (error + u64)" where
  "sample_delay x maxDelay w =
     (if maxDelay > 0 then
        (case GenerateInteger x w of
           (w1, n) \<Rightarrow>
             if maxDelay + 1 = 0 then (w1, Inl (Panic ''integer divide by zero''))
             else (w1, Inr ((word_of_nat n) mod (maxDelay + 1))))
      else (w, Inr 0))"

text \<open>The cap on the block number delay, given both sampled delays.\<close>

definition cap_blockNumberDelay :: "u64 \<Rightarrow> u64 \<Rightarrow> u64" where
  "cap_blockNumberDelay blockNumberDelay blockTimestampDelay =
     (if blockNumberDelay > blockTimestampDelay then
        (if blockTimestampDelay = 0 then 0 else blockNumberDelay mod blockTimestampDelay)
      else blockNumberDelay)"

definition select_method ::
  "('w, 'v) FuzzerWorker \<Rightarrow> ('w, 'v) FuzzerWorker \<times> (error + DeployedContractMethod)" where
  "select_method fw =
     (let callOnlyPureFunctions = (length (stateChangingMethods fw) = 0 \<and> length (pureMethods fw) > 0) in
      case (if length (pureMethods fw) > 0
            then (case worker_Intn fw 100 of
                    (fw1, Inl e) \<Rightarrow> (fw1, Inl e)
                  | (fw1, Inr n) \<Rightarrow> (fw1, Inr (n = 0)))
            else (fw, Inr False)) of
        (fw1, Inl e) \<Rightarrow> (fw1, Inl e)
      | (fw1, Inr hit) \<Rightarrow>
          if hit \<or> callOnlyPureFunctions then
            (case worker_Intn fw1 (length (pureMethods fw1)) of
               (fw2, Inl e) \<Rightarrow> (fw2, Inl e)
             | (fw2, Inr i) \<Rightarrow> (fw2, Inr (pureMethods fw2 ! i)))
          else
            (case worker_Intn fw1 (length (stateChangingMethods fw1)) of
               (fw2, Inl e) \<Rightarrow> (fw2, Inl e)
             | (fw2, Inr i) \<Rightarrow> (fw2, Inr (stateChangingMethods fw2 ! i))))"

definition generateNewElement ::
  "('w, 'v) externals \<Rightarrow> ('w, 'v) FuzzerWorker \<Rightarrow>
   ('w, 'v) FuzzerWorker \<times> (error + 'v CallSequenceElement)" where
  "generateNewElement x fw =
     (if length (stateChangingMethods fw) = 0 \<and> length (pureMethods fw) = 0 then
        (fw, Inl (Err ''cannot generate fuzzed call as there are no methods to call''))
      else
        case select_method fw of
          (fw1, Inl e) \<Rightarrow> (fw1, Inl e)
        | (fw1, Inr selectedMethod) \<Rightarrow>
           (case worker_Intn fw1 (length (senders (config x))) of
              (fw2, Inl e) \<Rightarrow> (fw2, Inl e)
            | (fw2, Inr si) \<Rightarrow>
               (let selectedSender = senders (config x) ! si in
                case on_outside (generate_args x (Inputs (dcm_Method selectedMethod))) fw2 of
                  (fw3, args) \<Rightarrow>
                   (case (if StateMutability (dcm_Method selectedMethod) = ''payable''
                          then on_outside (GenerateInteger x) fw3 else (fw3, 0)) of
                      (fw4, val) \<Rightarrow>
                       (let msg = NewCallMessageWithAbiValueData selectedSender
                                    (Some (dcm_Address selectedMethod)) 0 val
                                    (TransactionGasLimit (config x)) None None None
                                    (Some \<lparr>AbiMethod = dcm_Method selectedMethod, InputValues = args\<rparr>)
                        in case on_outside (sample_delay x (MaxBlockNumberDelay (config x))) fw4 of
                             (fw5, Inl e) \<Rightarrow> (fw5, Inl e)
                           | (fw5, Inr blockNumberDelay) \<Rightarrow>
                              (case on_outside (sample_delay x (MaxBlockTimestampDelay (config x))) fw5 of
                                 (fw6, Inl e) \<Rightarrow> (fw6, Inl e)
                               | (fw6, Inr blockTimestampDelay) \<Rightarrow>
                                   (fw6, Inr (NewCallSequenceElement (dcm_Contract selectedMethod) msg
                                                (cap_blockNumberDelay blockNumberDelay blockTimestampDelay)
                                                blockTimestampDelay))))))))"

subsection \<open>Mutation before a fetch\<close>

text \<open>
  The loop of \<open>prefetchModifyCallFuncMutate\<close> over the input values, \<open>n\<close> of them still
  to do; \<open>Method.Inputs[i]\<close> out of range panics.
\<close>

fun prefetchMutate_loop ::
  "('w, 'v) externals \<Rightarrow> Method \<Rightarrow> nat \<Rightarrow> nat \<Rightarrow> 'v list \<Rightarrow> 'w \<Rightarrow> 'w \<times> (error + 'v list)" where
  "prefetchMutate_loop x m 0 i inputValues w = (w, Inr inputValues)"
| "prefetchMutate_loop x m (Suc n) i inputValues w =
     (if i < length (Inputs m) then
        (case MutateAbiValue x GeneralMutator (Inputs m ! i) (inputValues ! i) w of
           (w1, mutatedInput, Some e) \<Rightarrow>
             (w1, Inl (wrap_err ''error when mutating call sequence input argument'' e))
         | (w1, mutatedInput, None) \<Rightarrow>
             prefetchMutate_loop x m n (i + 1) (inputValues[i := mutatedInput]) w1)
      else (w, Inl (Panic ''index out of range'')))"

definition prefetchModifyCallFuncMutate ::
  "('w, 'v) externals \<Rightarrow> ('w, 'v) FuzzerWorker \<Rightarrow> 'v CallSequenceElement \<Rightarrow>
   ('w, 'v) FuzzerWorker \<times> (error + 'v CallSequenceElement)" where
  "prefetchModifyCallFuncMutate x fw element =
     (case Call element of
        None \<Rightarrow> (fw, Inr element)
      | Some call \<Rightarrow>
         (case DataAbiValues call of
            None \<Rightarrow> (fw, Inr element)
          | Some abiValuesMsgData \<Rightarrow>
             (case on_outside (prefetchMutate_loop x (AbiMethod abiValuesMsgData)
                                 (length (InputValues abiValuesMsgData)) 0
                                 (InputValues abiValuesMsgData)) fw of
                (fw1, Inl e) \<Rightarrow> (fw1, Inl e)
              | (fw1, Inr vs) \<Rightarrow>
                  (fw1, Inr (element\<lparr>Call := Some (call\<lparr>DataAbiValues :=
                                Some (abiValuesMsgData\<lparr>InputValues := vs\<rparr>)\<rparr>)\<rparr>)))))"

subsection \<open>Initializing a sequence and fetching its elements\<close>

definition set_baseSequence ::
  "'v CallSequence \<Rightarrow> ('w, 'v) FuzzerWorker \<Rightarrow> ('w, 'v) FuzzerWorker" where
  "set_baseSequence sequence fw =
     fw\<lparr>sequenceGenerator := (sequenceGenerator fw)\<lparr>baseSequence := sequence\<rparr>\<rparr>"

text \<open>
  \<open>InitializeNextSequence\<close> returns a flag and an error. \<open>make\<close> panics for a negative
  length. The chooser's \<open>ChoiceCount\<close> is the number of choices registered.
\<close>

definition InitializeNextSequence ::
  "('w, 'v) externals \<Rightarrow> ('w, 'v) FuzzerWorker \<Rightarrow> ('w, 'v) FuzzerWorker \<times> bool \<times> error option" where
  "InitializeNextSequence x fw =
     (if CallSequenceLength (config x) < 0 then (fw, False, Some (Panic ''makeslice: len out of range''))
      else
        let fw0 = fw\<lparr>sequenceGenerator := (sequenceGenerator fw)
                      \<lparr>baseSequence := replicate (nat (CallSequenceLength (config x))) None,
                       fetchIndex := 0, prefetchModifyCallFunc := None\<rparr>\<rparr>
        in case on_outside (UnexecutedCallSequence x) fw0 of
             (fw1, Some unexecutedSequence) \<Rightarrow> (set_baseSequence unexecutedSequence fw1, False, None)
           | (fw1, None) \<Rightarrow>
               if length (mutationStrategyChoices (gen_config x)) = 0
                  \<or> ActiveMutableSequenceCount x (outside fw1) = 0
               then (fw1, True, None)
               else
                 (case Float32 (randomProvider fw1) of
                    (f, r) \<Rightarrow>
                      (let fw2 = fw1\<lparr>randomProvider := r\<rparr> in
                       if f > NewSequenceProbability (gen_config x) then
                         (case on_outside (Choose x (mutationStrategyChoices
                                                       (gen_config x))) fw2 of
                            (fw3, Inl e) \<Rightarrow>
                              (fw3, True, Some (wrap_err ''could not generate a corpus mutation derived call sequence due to an error obtaining a mutation method'' e))
                          | (fw3, Inr None) \<Rightarrow> (fw3, True, None)
                          | (fw3, Inr (Some corpusMutationFunc)) \<Rightarrow>
                             (case CallSequenceGeneratorFunc corpusMutationFunc of
                                None \<Rightarrow> (fw3, True, None)
                              | Some f \<Rightarrow>
                                 (case run_generator_func x f fw3 (baseSequence (sequenceGenerator fw3)) of
                                    (fw4, Inl e) \<Rightarrow>
                                      (fw4, True, Some (wrap_err ''could not generate a corpus mutation derived call sequence due to an error executing a mutation method'' e))
                                  | (fw4, Inr sequence) \<Rightarrow>
                                      ((set_baseSequence sequence fw4)
                                         \<lparr>sequenceGenerator := (sequenceGenerator (set_baseSequence sequence fw4))
                                            \<lparr>prefetchModifyCallFunc := PrefetchModifyCallFunc corpusMutationFunc\<rparr>\<rparr>,
                                       True, None))))
                       else (fw2, True, None))))"

definition PopSequenceElement ::
  "('w, 'v) externals \<Rightarrow> ('w, 'v) FuzzerWorker \<Rightarrow>
   ('w, 'v) FuzzerWorker \<times> (error + 'v CallSequenceElement option)" where
  "PopSequenceElement x fw =
     (let g = sequenceGenerator fw in
      if fetchIndex g \<ge> length (baseSequence g) then (fw, Inr None)
      else
        case (case baseSequence g ! fetchIndex g of
                None \<Rightarrow> generateNewElement x fw
              | Some element \<Rightarrow>
                 (case prefetchModifyCallFunc g of
                    None \<Rightarrow> (fw, Inr element)
                  | Some Mutate \<Rightarrow> prefetchModifyCallFuncMutate x fw element)) of
          (fw1, Inl e) \<Rightarrow> (fw1, Inl e)
        | (fw1, Inr element) \<Rightarrow>
           (case Call element of
              None \<Rightarrow> (fw1, Inl (Panic ''nil pointer dereference''))
            | Some call \<Rightarrow>
               (let element' = element\<lparr>Call := Some (FillFromTestChainProperties x call (outside fw1))\<rparr>;
                    g1 = sequenceGenerator fw1
                in (fw1\<lparr>sequenceGenerator := g1\<lparr>baseSequence := (baseSequence g1)[fetchIndex g1 := Some element'],
                                                  fetchIndex := fetchIndex g1 + 1\<rparr>\<rparr>,
                    Inr (Some element')))))"

section \<open>Executing a call sequence\<close>

text \<open>
  Modelled from the spec: \<open>calls.ExecuteCallSequenceIteratively\<close>, whose source is not at
  hand. On each step it fetches the next element (\<open>fetchElementFunc\<close>, given the number of
  elements executed so far), stops when there is none, executes the element on the chain,
  appends it to the executed sequence and calls \<open>executionCheckFunc\<close> on that sequence, which
  may ask to stop. It returns the executed sequence, or the first error. \<open>'s\<close> is the
  state the closures passed in share with the chain. Nothing bounds the number of
  steps but \<open>fetchElementFunc\<close>, so the result is an option: \<open>None\<close> is a loop that
  never ends.
\<close>

partial_function (option) ExecuteCallSequenceIteratively ::
  "('e \<Rightarrow> 's \<Rightarrow> 's \<times> (error + 'e)) \<Rightarrow> (nat \<Rightarrow> 's \<Rightarrow> 's \<times> (error + 'e option)) \<Rightarrow>
   ('e list \<Rightarrow> 's \<Rightarrow> 's \<times> (error + bool)) \<Rightarrow> 's \<Rightarrow> 'e list \<Rightarrow> ('s \<times> (error + 'e list)) option" where
  "ExecuteCallSequenceIteratively exec fetchElementFunc executionCheckFunc s callSequenceExecuted =
     (case fetchElementFunc (length callSequenceExecuted) s of
        (s1, Inl e) \<Rightarrow> Some (s1, Inl e)
      | (s1, Inr None) \<Rightarrow> Some (s1, Inr callSequenceExecuted)
      | (s1, Inr (Some callSequenceElement)) \<Rightarrow>
         (case exec callSequenceElement s1 of
            (s2, Inl e) \<Rightarrow> Some (s2, Inl e)
          | (s2, Inr executedElement) \<Rightarrow>
             (case executionCheckFunc (callSequenceExecuted @ [executedElement]) s2 of
                (s3, Inl e) \<Rightarrow> Some (s3, Inl e)
              | (s3, Inr shouldBreak) \<Rightarrow>
                  if shouldBreak then Some (s3, Inr (callSequenceExecuted @ [executedElement]))
                  else ExecuteCallSequenceIteratively exec fetchElementFunc executionCheckFunc s3
                         (callSequenceExecuted @ [executedElement]))))"

section \<open>Fuzzer worker\<close>

definition getNewCorpusCallSequenceWeight :: "('w, 'v) FuzzerWorker \<Rightarrow> nat" where
  "getNewCorpusCallSequenceWeight fw = sequencesTested (workerMetrics fw) + 1"

text \<open>
  A deferred function also runs while a panic unwinds. The deferred revert of
  \<open>testNextCallSequence\<close> and \<open>testShrunkenCallSequence\<close> is guarded by \<open>err == nil\<close>; a
  panic leaves \<open>err\<close> as it was, nil. What the deferred function assigns to \<open>err\<close> is lost:
  the results are unnamed.
\<close>

fun err_is_nil :: "error + 'a \<Rightarrow> bool" where
  "err_is_nil (Inl (Err e)) = False"
| "err_is_nil (Inl (Panic p)) = True"
| "err_is_nil (Inr v) = True"

definition deferred_revert ::
  "('w, 'v) externals \<Rightarrow> bool \<Rightarrow> ('w, 'v) FuzzerWorker \<Rightarrow> ('w, 'v) FuzzerWorker" where
  "deferred_revert x errIsNil fw =
     (if errIsNil
      then fst (on_outside (RevertToBlockNumber x (testingBaseBlockNumber fw)) fw)
      else fw)"

subsection \<open>testNextCallSequence\<close>

fun run_test_funcs ::
  "('v CallSequence \<Rightarrow> 'w \<Rightarrow> 'w \<times> (error + ('w, 'v) ShrinkCallSequenceRequest list)) list \<Rightarrow>
   'v CallSequence \<Rightarrow> ('w, 'v) ShrinkCallSequenceRequest list \<Rightarrow> 'w \<Rightarrow>
   'w \<times> (error + ('w, 'v) ShrinkCallSequenceRequest list)" where
  "run_test_funcs [] sequence shrinkCallSequenceRequests w = (w, Inr shrinkCallSequenceRequests)"
| "run_test_funcs (callSequenceTestFunc # rest) sequence shrinkCallSequenceRequests w =
     (case callSequenceTestFunc sequence w of
        (w1, Inl e) \<Rightarrow> (w1, Inl e)
      | (w1, Inr newShrinkRequests) \<Rightarrow>
          run_test_funcs rest sequence (shrinkCallSequenceRequests @ newShrinkRequests) w1)"

text \<open>
  The receipt of an element:
  \<open>e.ChainReference.Block.MessageResults[e.ChainReference.TransactionIndex].Receipt\<close>.
\<close>

definition element_receipt :: "'v CallSequenceElement option \<Rightarrow> error + Receipt" where
  "element_receipt e =
     (case e of
        None \<Rightarrow> Inl (Panic ''nil pointer dereference'')
      | Some element \<Rightarrow>
         (case ChainReference element of
            None \<Rightarrow> Inl (Panic ''nil pointer dereference'')
          | Some ref \<Rightarrow>
              if TransactionIndex ref < length (BlockMessageResults ref)
              then Inr (BlockMessageResults ref ! TransactionIndex ref)
              else Inl (Panic ''index out of range'')))"

definition testNext_fetchElementFunc ::
  "('w, 'v) externals \<Rightarrow> nat \<Rightarrow>
   ('w, 'v) FuzzerWorker \<times> ('w, 'v) ShrinkCallSequenceRequest list \<Rightarrow>
   (('w, 'v) FuzzerWorker \<times> ('w, 'v) ShrinkCallSequenceRequest list) \<times> (error + 'v CallSequenceElement option)" where
  "testNext_fetchElementFunc x currentIndex s =
     (case s of (fw, reqs) \<Rightarrow>
        (case PopSequenceElement x fw of (fw1, r) \<Rightarrow> ((fw1, reqs), r)))"

definition worker_exec ::
  "('w, 'v) externals \<Rightarrow> 'v CallSequenceElement \<Rightarrow> ('w, 'v) FuzzerWorker \<Rightarrow>
   ('w, 'v) FuzzerWorker \<times> (error + 'v CallSequenceElement)" where
  "worker_exec x element fw = on_outside (ExecuteElement x element) fw"

definition testNext_exec ::
  "('w, 'v) externals \<Rightarrow> 'v CallSequenceElement \<Rightarrow>
   ('w, 'v) FuzzerWorker \<times> ('w, 'v) ShrinkCallSequenceRequest list \<Rightarrow>
   (('w, 'v) FuzzerWorker \<times> ('w, 'v) ShrinkCallSequenceRequest list) \<times> (error + 'v CallSequenceElement)" where
  "testNext_exec x element s =
     (case s of (fw, reqs) \<Rightarrow>
        (case worker_exec x element fw of (fw1, r) \<Rightarrow> ((fw1, reqs), r)))"

definition testNext_executionCheckFunc ::
  "('w, 'v) externals \<Rightarrow> 'v CallSequenceElement list \<Rightarrow>
   ('w, 'v) FuzzerWorker \<times> ('w, 'v) ShrinkCallSequenceRequest list \<Rightarrow>
   (('w, 'v) FuzzerWorker \<times> ('w, 'v) ShrinkCallSequenceRequest list) \<times> (error + bool)" where
  "testNext_executionCheckFunc x executed s =
     (case s of (fw, shrinkCallSequenceRequests) \<Rightarrow>
        (let currentlyExecutedSequence = map Some executed in
         case on_outside (CheckSequenceCoverageAndUpdate x currentlyExecutedSequence
                            (getNewCorpusCallSequenceWeight fw) True) fw of
           (fw1, Some e) \<Rightarrow> ((fw1, shrinkCallSequenceRequests), Inl e)
         | (fw1, None) \<Rightarrow>
            (case on_outside (run_test_funcs (CallSequenceTestFuncs x) currentlyExecutedSequence
                                shrinkCallSequenceRequests) fw1 of
               (fw2, Inl e) \<Rightarrow> ((fw2, shrinkCallSequenceRequests), Inl e)
             | (fw2, Inr reqs) \<Rightarrow>
                (if currentlyExecutedSequence = [] then ((fw2, reqs), Inl (Panic ''index out of range''))
                 else
                   case element_receipt (last currentlyExecutedSequence) of
                     Inl e \<Rightarrow> ((fw2, reqs), Inl e)
                   | Inr receipt \<Rightarrow>
                      (let fw3 = fw2\<lparr>workerMetrics := (workerMetrics fw2)
                                      \<lparr>callsTested := callsTested (workerMetrics fw2) + 1,
                                       gasUsed := gasUsed (workerMetrics fw2) + unat (GasUsed receipt)\<rparr>\<rparr>
                       in case on_outside (CheckContextDone x) fw3 of
                            (fw4, True) \<Rightarrow> ((fw4, reqs), Inr True)
                          | (fw4, False) \<Rightarrow> ((fw4, reqs), Inr (length reqs > 0)))))))"

text \<open>The body of \<open>testNextCallSequence\<close>, up to its \<open>return\<close>; then the deferred revert.\<close>

definition testNextCallSequence_body ::
  "('w, 'v) externals \<Rightarrow> ('w, 'v) FuzzerWorker \<Rightarrow>
   (('w, 'v) FuzzerWorker \<times>
    (error + 'v CallSequence \<times> ('w, 'v) ShrinkCallSequenceRequest list)) option" where
  "testNextCallSequence_body x fw =
     (case InitializeNextSequence x fw of
        (fw1, isNewSequence, Some e) \<Rightarrow> Some (fw1, Inl e)
      | (fw1, isNewSequence, None) \<Rightarrow>
         (case ExecuteCallSequenceIteratively (testNext_exec x) (testNext_fetchElementFunc x)
                 (testNext_executionCheckFunc x) (fw1, []) [] of
            None \<Rightarrow> None
          | Some ((fw2, shrinkCallSequenceRequests), Inl e) \<Rightarrow> Some (fw2, Inl e)
          | Some ((fw2, shrinkCallSequenceRequests), Inr testedCallSequence) \<Rightarrow>
             (case on_outside (CheckContextDone x) fw2 of
                (fw3, True) \<Rightarrow> Some (fw3, Inr ([], []))
              | (fw3, False) \<Rightarrow>
                  Some (fw3, Inr (map Some testedCallSequence,
                                  if \<not> isNewSequence
                                  then map (\<lambda>r. r\<lparr>RecordResultInCorpus := False\<rparr>) shrinkCallSequenceRequests
                                  else shrinkCallSequenceRequests)))))"

definition testNextCallSequence ::
  "('w, 'v) externals \<Rightarrow> ('w, 'v) FuzzerWorker \<Rightarrow>
   (('w, 'v) FuzzerWorker \<times>
    (error + 'v CallSequence \<times> ('w, 'v) ShrinkCallSequenceRequest list)) option" where
  "testNextCallSequence x fw =
     (case testNextCallSequence_body x fw of
        None \<Rightarrow> None
      | Some (fw1, res) \<Rightarrow> Some (deferred_revert x (err_is_nil res) fw1, res))"

subsection \<open>testShrunkenCallSequence\<close>

definition testShrunken_fetchElementFunc ::
  "('w, 'v) externals \<Rightarrow> 'v CallSequence \<Rightarrow> nat \<Rightarrow> ('w, 'v) FuzzerWorker \<Rightarrow>
   ('w, 'v) FuzzerWorker \<times> (error + 'v CallSequenceElement option)" where
  "testShrunken_fetchElementFunc x possibleShrunkSequence currentIndex fw =
     (if currentIndex \<ge> length possibleShrunkSequence then (fw, Inr None)
      else
        case possibleShrunkSequence ! currentIndex of
          None \<Rightarrow> (fw, Inl (Panic ''nil pointer dereference''))
        | Some element \<Rightarrow>
           (case Call element of
              None \<Rightarrow> (fw, Inl (Panic ''nil pointer dereference''))
            | Some call \<Rightarrow>
                (fw, Inr (Some (element\<lparr>Call := Some (FillFromTestChainProperties x call (outside fw))\<rparr>)))))"

definition testShrunken_executionCheckFunc ::
  "('w, 'v) externals \<Rightarrow> 'v CallSequenceElement list \<Rightarrow> ('w, 'v) FuzzerWorker \<Rightarrow>
   ('w, 'v) FuzzerWorker \<times> (error + bool)" where
  "testShrunken_executionCheckFunc x executed fw =
     (case on_outside (CheckSequenceCoverageAndUpdate x (map Some executed)
                         (getNewCorpusCallSequenceWeight fw) True) fw of
        (fw1, Some seqErr) \<Rightarrow> (fw1, Inl seqErr)
      | (fw1, None) \<Rightarrow>
         (case on_outside (CheckContextDone x) fw1 of
            (fw2, True) \<Rightarrow> (fw2, Inr True)
          | (fw2, False) \<Rightarrow> (fw2, Inr False)))"

text \<open>
  The elements of \<open>possibleShrunkSequence\<close> are stamped and executed in place, so the
  caller's sequence holds the executed elements afterwards: the second component of the
  result. The length of the slice does not change.
\<close>

definition testShrunkenCallSequence_body ::
  "('w, 'v) externals \<Rightarrow> ('w, 'v) FuzzerWorker \<Rightarrow> 'v CallSequence \<Rightarrow>
   ('w, 'v) ShrinkCallSequenceRequest \<Rightarrow>
   (('w, 'v) FuzzerWorker \<times> (error + bool \<times> 'v CallSequence)) option" where
  "testShrunkenCallSequence_body x fw possibleShrunkSequence shrinkRequest =
     (case ExecuteCallSequenceIteratively (worker_exec x)
             (testShrunken_fetchElementFunc x possibleShrunkSequence)
             (testShrunken_executionCheckFunc x) fw [] of
        None \<Rightarrow> None
      | Some (fw1, Inl e) \<Rightarrow> Some (fw1, Inl e)
      | Some (fw1, Inr executed) \<Rightarrow>
         (let sequence' = map Some executed @ drop (length executed) possibleShrunkSequence in
          case on_outside (CheckContextDone x) fw1 of
            (fw2, True) \<Rightarrow> Some (fw2, Inr (False, sequence'))
          | (fw2, False) \<Rightarrow>
              if length possibleShrunkSequence > 0 then
                (case on_outside (VerifierFunction shrinkRequest sequence') fw2 of
                   (fw3, Inl e) \<Rightarrow> Some (fw3, Inl e)
                 | (fw3, Inr validShrunkSequence) \<Rightarrow> Some (fw3, Inr (validShrunkSequence, sequence')))
              else Some (fw2, Inr (False, sequence'))))"

definition testShrunkenCallSequence ::
  "('w, 'v) externals \<Rightarrow> ('w, 'v) FuzzerWorker \<Rightarrow> 'v CallSequence \<Rightarrow>
   ('w, 'v) ShrinkCallSequenceRequest \<Rightarrow>
   (('w, 'v) FuzzerWorker \<times> (error + bool \<times> 'v CallSequence)) option" where
  "testShrunkenCallSequence x fw possibleShrunkSequence shrinkRequest =
     (case testShrunkenCallSequence_body x fw possibleShrunkSequence shrinkRequest of
        None \<Rightarrow> None
      | Some (fw1, res) \<Rightarrow> Some (deferred_revert x (err_is_nil res) fw1, res))"

subsection \<open>shrinkParam and shorten\<close>

text \<open>The loop of \<open>shrinkParam\<close>; the error of \<open>MutateAbiValue\<close> is dropped.\<close>

fun shrinkParam_loop ::
  "('w, 'v) externals \<Rightarrow> Method \<Rightarrow> nat \<Rightarrow> nat \<Rightarrow> 'v list \<Rightarrow> 'w \<Rightarrow> 'w \<times> (error + 'v list)" where
  "shrinkParam_loop x m 0 j inputValues w = (w, Inr inputValues)"
| "shrinkParam_loop x m (Suc n) j inputValues w =
     (if j < length (Inputs m) then
        (case MutateAbiValue x ShrinkingMutator (Inputs m ! j) (inputValues ! j) w of
           (w1, mutatedInput, err) \<Rightarrow>
             shrinkParam_loop x m n (j + 1) (inputValues[j := mutatedInput]) w1)
      else (w, Inl (Panic ''index out of range'')))"

definition shrinkParam ::
  "('w, 'v) externals \<Rightarrow> ('w, 'v) FuzzerWorker \<Rightarrow> 'v CallSequence \<Rightarrow>
   ('w, 'v) FuzzerWorker \<times> (error + 'v CallSequence)" where
  "shrinkParam x fw callSequence =
     (case worker_Intn fw (length callSequence) of
        (fw1, Inl e) \<Rightarrow> (fw1, Inl e)
      | (fw1, Inr i) \<Rightarrow>
         (case callSequence ! i of
            None \<Rightarrow> (fw1, Inl (Panic ''nil pointer dereference''))
          | Some element \<Rightarrow>
             (case Call element of
                None \<Rightarrow> (fw1, Inl (Panic ''nil pointer dereference''))
              | Some call \<Rightarrow>
                 (case DataAbiValues call of
                    None \<Rightarrow> (fw1, Inl (Panic ''nil pointer dereference''))
                  | Some abiValuesMsgData \<Rightarrow>
                     (case on_outside (shrinkParam_loop x (AbiMethod abiValuesMsgData)
                                         (length (InputValues abiValuesMsgData)) 0
                                         (InputValues abiValuesMsgData)) fw1 of
                        (fw2, Inl e) \<Rightarrow> (fw2, Inl e)
                      | (fw2, Inr vs) \<Rightarrow>
                          (fw2, Inr (callSequence[i := Some (element\<lparr>Call := Some (call\<lparr>DataAbiValues :=
                                        Some (abiValuesMsgData\<lparr>InputValues := vs\<rparr>)\<rparr>)\<rparr>)])))))))"

definition shorten ::
  "('w, 'v) FuzzerWorker \<Rightarrow> 'v CallSequence \<Rightarrow> ('w, 'v) FuzzerWorker \<times> (error + 'v CallSequence)" where
  "shorten fw callSequence =
     (case worker_Intn fw (length callSequence) of
        (fw1, Inl e) \<Rightarrow> (fw1, Inl e)
      | (fw1, Inr i) \<Rightarrow> (fw1, Inr (take i callSequence @ drop (i + 1) callSequence)))"

subsection \<open>shrinkCallSequence\<close>

text \<open>The closure \<open>shrinkingEnded\<close>; the context is polled only while the limit allows.\<close>

definition shrinkingEnded ::
  "('w, 'v) externals \<Rightarrow> u64 \<Rightarrow> u64 \<Rightarrow> ('w, 'v) FuzzerWorker \<Rightarrow> ('w, 'v) FuzzerWorker \<times> bool" where
  "shrinkingEnded x shrinkIteration shrinkLimit fw =
     (if shrinkIteration \<ge> shrinkLimit then (fw, True) else on_outside (CheckContextDone x) fw)"

text \<open>
  The first loop, over the index \<open>i\<close>: each round clones \<open>optimizedSequence\<close> afresh into
  \<open>withoutReverts\<close>, drops element \<open>i\<close> of the clone if its receipt failed, and counts the
  limit down. \<open>shrinkIteration\<close> stays 0 throughout.
\<close>

function removeReverts_loop ::
  "('w, 'v) externals \<Rightarrow> 'v CallSequence \<Rightarrow> nat \<Rightarrow> 'v CallSequence \<Rightarrow> u64 \<Rightarrow>
   ('w, 'v) FuzzerWorker \<Rightarrow> ('w, 'v) FuzzerWorker \<times> (error + 'v CallSequence \<times> u64)" where
  "removeReverts_loop x optimizedSequence i withoutReverts shrinkLimit fw =
     (if i < length optimizedSequence then
        (case shrinkingEnded x 0 shrinkLimit fw of
           (fw1, True) \<Rightarrow> (fw1, Inr (withoutReverts, shrinkLimit))
         | (fw1, False) \<Rightarrow>
            (case CloneError x optimizedSequence of
               Some e \<Rightarrow> (fw1, Inl e)
             | None \<Rightarrow>
                (case element_receipt (optimizedSequence ! i) of
                   Inl e \<Rightarrow> (fw1, Inl e)
                 | Inr lastMessageResult \<Rightarrow>
                     removeReverts_loop x optimizedSequence (i + 1)
                       (if Status lastMessageResult = ReceiptStatusFailed
                        then take i optimizedSequence @ drop (i + 1) optimizedSequence
                        else optimizedSequence)
                       (shrinkLimit - 1) fw1)))
      else (fw, Inr (withoutReverts, shrinkLimit)))"
  by pat_completeness auto
termination
  by (relation "measure (\<lambda>(x, optimizedSequence, i, withoutReverts, shrinkLimit, fw).
                  length optimizedSequence - i)") auto

declare removeReverts_loop.simps [simp del]

text \<open>
  The second loop. An error of \<open>Clone\<close> is dropped there and leaves a nil sequence;
  \<open>Int() % 2\<close> is the coin.
\<close>

function shrink_loop ::
  "('w, 'v) externals \<Rightarrow> ('w, 'v) ShrinkCallSequenceRequest \<Rightarrow> 'v CallSequence \<Rightarrow> u64 \<Rightarrow> u64 \<Rightarrow>
   ('w, 'v) FuzzerWorker \<Rightarrow> (('w, 'v) FuzzerWorker \<times> (error + 'v CallSequence)) option" where
  "shrink_loop x shrinkRequest optimizedSequence shrinkIteration shrinkLimit fw =
     (case shrinkingEnded x shrinkIteration shrinkLimit fw of
        (fw1, True) \<Rightarrow> Some (fw1, Inr optimizedSequence)
      | (fw1, False) \<Rightarrow>
         (let possibleShrunkSequence =
                (case CloneError x optimizedSequence of None \<Rightarrow> optimizedSequence | Some e \<Rightarrow> []);
              coinToss = fst (rand_next (randomProvider fw1)) mod 2;
              fw2 = fw1\<lparr>randomProvider := snd (rand_next (randomProvider fw1))\<rparr>
          in case (if coinToss = 0 \<or> length possibleShrunkSequence = 1
                   then shrinkParam x fw2 possibleShrunkSequence
                   else shorten fw2 possibleShrunkSequence) of
               (fw3, Inl e) \<Rightarrow> Some (fw3, Inl e)
             | (fw3, Inr candidate) \<Rightarrow>
                (case testShrunkenCallSequence x fw3 candidate shrinkRequest of
                   None \<Rightarrow> None
                 | Some (fw4, Inl e) \<Rightarrow> Some (fw4, Inl e)
                 | Some (fw4, Inr (validShrunkSequence, candidate')) \<Rightarrow>
                     shrink_loop x shrinkRequest
                       (if validShrunkSequence then candidate' else optimizedSequence)
                       (shrinkIteration + 1) (shrinkLimit - 1) fw4)))"
  by pat_completeness auto
termination
proof (relation "measure (\<lambda>(x, shrinkRequest, optimizedSequence, shrinkIteration, shrinkLimit, fw).
                  unat shrinkLimit - unat shrinkIteration)", goal_cases)
  case 1
  show ?case by simp
next
  case (2 x shrinkRequest optimizedSequence shrinkIteration shrinkLimit fw)
  then have lt: "shrinkIteration < shrinkLimit"
    by (auto simp add: shrinkingEnded_def split: if_splits)
  then have "unat shrinkIteration < unat shrinkLimit"
    by (simp add: word_less_nat_alt)
  moreover from lt have "unat (shrinkLimit - 1) = unat shrinkLimit - 1"
    by (metis unat_minus_one word_not_simps(1))
  moreover from lt have "unat (shrinkIteration + 1) = unat shrinkIteration + 1"
    by (metis (no_types, lifting) add_cancel_left_left inc_i linorder_le_less_linear
        olen_add_eqv unat_plus_simple unsigned_0 unsigned_1 word_less_1)
  ultimately show ?case by simp
qed

declare shrink_loop.simps [simp del]

text \<open>
  The first phase: the first loop, then one test of \<open>withoutReverts\<close> (nil if the loop
  did not run). The result is the optimized sequence and the limit left.
\<close>

definition shrink_removeReverts ::
  "('w, 'v) externals \<Rightarrow> ('w, 'v) ShrinkCallSequenceRequest \<Rightarrow> 'v CallSequence \<Rightarrow> u64 \<Rightarrow>
   ('w, 'v) FuzzerWorker \<Rightarrow> (('w, 'v) FuzzerWorker \<times> (error + 'v CallSequence \<times> u64)) option" where
  "shrink_removeReverts x shrinkRequest optimizedSequence shrinkLimit fw =
     (case removeReverts_loop x optimizedSequence 0 [] shrinkLimit fw of
        (fw1, Inl e) \<Rightarrow> Some (fw1, Inl e)
      | (fw1, Inr (withoutReverts, shrinkLimit1)) \<Rightarrow>
         (case testShrunkenCallSequence x fw1 withoutReverts shrinkRequest of
            None \<Rightarrow> None
          | Some (fw2, Inl e) \<Rightarrow> Some (fw2, Inl e)
          | Some (fw2, Inr (validShrunkSequence, withoutReverts')) \<Rightarrow>
              Some (fw2, Inr (if validShrunkSequence then withoutReverts' else optimizedSequence,
                              shrinkLimit1))))"

text \<open>What follows the shrinking: recording, reverting, the callback, reverting again.\<close>

definition shrink_finish ::
  "('w, 'v) externals \<Rightarrow> ('w, 'v) ShrinkCallSequenceRequest \<Rightarrow> 'v CallSequence \<Rightarrow>
   ('w, 'v) FuzzerWorker \<Rightarrow> ('w, 'v) FuzzerWorker \<times> (error + 'v CallSequence)" where
  "shrink_finish x shrinkRequest optimizedSequence fw =
     (case (if RecordResultInCorpus shrinkRequest
            then on_outside (AddTestResultCallSequence x optimizedSequence
                               (getNewCorpusCallSequenceWeight fw) True) fw
            else (fw, None)) of
        (fw1, Some e) \<Rightarrow> (fw1, Inl e)
      | (fw1, None) \<Rightarrow>
         (case on_outside (RevertToBlockNumber x (testingBaseBlockNumber fw1)) fw1 of
            (fw2, Some e) \<Rightarrow> (fw2, Inl e)
          | (fw2, None) \<Rightarrow>
             (case on_outside (FinishedCallback shrinkRequest optimizedSequence (TraceAll (config x))) fw2 of
                (fw3, Some e) \<Rightarrow> (fw3, Inl e)
              | (fw3, None) \<Rightarrow>
                 (case on_outside (RevertToBlockNumber x (testingBaseBlockNumber fw3)) fw3 of
                    (fw4, Some e) \<Rightarrow> (fw4, Inl e)
                  | (fw4, None) \<Rightarrow> (fw4, Inr optimizedSequence)))))"

definition set_shrinking :: "bool \<Rightarrow> ('w, 'v) FuzzerWorker \<Rightarrow> ('w, 'v) FuzzerWorker" where
  "set_shrinking b fw = fw\<lparr>workerMetrics := (workerMetrics fw)\<lparr>shrinking := b\<rparr>\<rparr>"

definition shrinkCallSequence ::
  "('w, 'v) externals \<Rightarrow> ('w, 'v) FuzzerWorker \<Rightarrow> 'v CallSequence \<Rightarrow>
   ('w, 'v) ShrinkCallSequenceRequest \<Rightarrow> (('w, 'v) FuzzerWorker \<times> (error + 'v CallSequence)) option" where
  "shrinkCallSequence x fw callSequence shrinkRequest =
     (if ShrinkLimit (config x) > 0 then
        (case shrink_removeReverts x shrinkRequest callSequence (ShrinkLimit (config x))
                (set_shrinking True fw) of
           None \<Rightarrow> None
         | Some (fw1, Inl e) \<Rightarrow> Some (fw1, Inl e)
         | Some (fw1, Inr (optimizedSequence, shrinkLimit)) \<Rightarrow>
            (case shrink_loop x shrinkRequest optimizedSequence 0 shrinkLimit fw1 of
               None \<Rightarrow> None
             | Some (fw2, Inl e) \<Rightarrow> Some (fw2, Inl e)
             | Some (fw2, Inr optimizedSequence') \<Rightarrow>
                 Some (shrink_finish x shrinkRequest optimizedSequence' (set_shrinking False fw2))))
      else Some (shrink_finish x shrinkRequest callSequence fw))"

subsection \<open>What shrinking may do to a sequence\<close>

text \<open>
  Whether the receipt an element refers to has the status \<open>failed\<close>, as the first loop
  of \<open>shrinkCallSequence\<close> reads it.
\<close>

definition receipt_failed :: "'v CallSequenceElement option \<Rightarrow> bool" where
  "receipt_failed e =
     (case element_receipt e of
        Inl err \<Rightarrow> False
      | Inr lastMessageResult \<Rightarrow> Status lastMessageResult = ReceiptStatusFailed)"

text \<open>
  The elements that the shrinker derives from an element: by stamping its call from
  the chain (\<open>fetchElementFunc\<close> of \<open>testShrunkenCallSequence\<close>), by executing it, and by
  replacing each argument value of its call by what \<open>MutateAbiValue\<close> makes of it with
  the shrinking mutator (\<open>shrinkParam\<close>). Nothing else of an element may change.
\<close>

inductive shrunk_element ::
  "('w, 'v) externals \<Rightarrow> 'v CallSequenceElement \<Rightarrow> 'v CallSequenceElement \<Rightarrow> bool"
  for x :: "('w, 'v) externals" where
  same: "shrunk_element x e e"
| stamped: "shrunk_element x e e1 \<Longrightarrow> Call e1 = Some call \<Longrightarrow>
            shrunk_element x e (e1\<lparr>Call := Some (FillFromTestChainProperties x call w)\<rparr>)"
| executed: "shrunk_element x e e1 \<Longrightarrow> ExecuteElement x e1 w = (w', Inr e2) \<Longrightarrow>
             shrunk_element x e e2"
| arguments: "shrunk_element x e e1 \<Longrightarrow> Call e1 = Some call \<Longrightarrow> DataAbiValues call = Some d \<Longrightarrow>
              length vs = length (InputValues d) \<Longrightarrow>
              (\<forall>j<length vs. \<exists>w w' err.
                 MutateAbiValue x ShrinkingMutator (Inputs (AbiMethod d) ! j) (InputValues d ! j) w
                 = (w', vs ! j, err)) \<Longrightarrow>
              shrunk_element x e
                (e1\<lparr>Call := Some (call\<lparr>DataAbiValues := Some (d\<lparr>InputValues := vs\<rparr>)\<rparr>)\<rparr>)"

text \<open>
  A sequence shrunk from another: some elements are deleted, and each one that is left
  derives from the element in its place.
\<close>

definition shrunk_from ::
  "('w, 'v) externals \<Rightarrow> 'v CallSequence \<Rightarrow> 'v CallSequence \<Rightarrow> bool" where
  "shrunk_from x s s' = list_emb (\<lambda>e' e. rel_option (shrunk_element x) e e') s' s"

text \<open>
  What of an element is neither an argument value nor a stamp of the chain: the
  contract, the delays, the sender, the receiver, the value and the method of the call,
  with the number of its arguments.
\<close>

definition shape_of ::
  "'v CallSequenceElement option \<Rightarrow>
   (nat \<times> u64 \<times> u64 \<times> (address \<times> address option \<times> nat \<times> (Method \<times> nat) option) option) option" where
  "shape_of e =
     map_option (\<lambda>element.
        (Contract element, BlockNumberDelay element, BlockTimestampDelay element,
         map_option (\<lambda>call.
            (From call, To call, Value call,
             map_option (\<lambda>d. (AbiMethod d, length (InputValues d))) (DataAbiValues call)))
           (Call element))) e"

subsection \<open>run\<close>

fun shrink_all ::
  "('w, 'v) externals \<Rightarrow> 'v CallSequence \<Rightarrow> ('w, 'v) ShrinkCallSequenceRequest list \<Rightarrow>
   ('w, 'v) FuzzerWorker \<Rightarrow> (('w, 'v) FuzzerWorker \<times> error option) option" where
  "shrink_all x callSequence [] fw = Some (fw, None)"
| "shrink_all x callSequence (shrinkVerifier # rest) fw =
     (case shrinkCallSequence x fw callSequence shrinkVerifier of
        None \<Rightarrow> None
      | Some (fw1, Inl e) \<Rightarrow> Some (fw1, Some e)
      | Some (fw1, Inr shrunk) \<Rightarrow> shrink_all x callSequence rest fw1)"

text \<open>
  The main loop of \<open>run\<close>, with its counter \<open>sequencesTested\<close> (an \<open>int\<close>, far from its
  bound). The result is the pair \<open>run\<close> returns.
\<close>

function run_loop ::
  "('w, 'v) externals \<Rightarrow> int \<Rightarrow> ('w, 'v) FuzzerWorker \<Rightarrow>
   (('w, 'v) FuzzerWorker \<times> bool \<times> error option) option" where
  "run_loop x sequencesTested' fw =
     (if sequencesTested' \<le> WorkerResetLimit (config x) then
        (case on_outside (CheckContextDone x) fw of
           (fw1, True) \<Rightarrow> Some (fw1, True, None)
         | (fw1, False) \<Rightarrow>
            (case on_outside (Publish x CallSequenceTesting) fw1 of
               (fw2, Some e) \<Rightarrow>
                 Some (fw2, False, Some (wrap_err ''error returned by an event handler when a worker emitted an event indicating testing of a new call sequence is starting'' e))
             | (fw2, None) \<Rightarrow>
                (case testNextCallSequence x fw2 of
                   None \<Rightarrow> None
                 | Some (fw3, Inl e) \<Rightarrow> Some (fw3, False, Some e)
                 | Some (fw3, Inr (callSequence, shrinkVerifiers)) \<Rightarrow>
                    (case shrink_all x callSequence shrinkVerifiers fw3 of
                       None \<Rightarrow> None
                     | Some (fw4, Some e) \<Rightarrow> Some (fw4, False, Some e)
                     | Some (fw4, None) \<Rightarrow>
                        (case on_outside (Publish x CallSequenceTested) fw4 of
                           (fw5, Some e) \<Rightarrow>
                             Some (fw5, False, Some (wrap_err ''error returned by an event handler when a worker emitted an event indicating testing of a new call sequence has concluded'' e))
                         | (fw5, None) \<Rightarrow>
                             run_loop x (sequencesTested' + 1)
                               (fw5\<lparr>workerMetrics := (workerMetrics fw5)
                                      \<lparr>sequencesTested := sequencesTested (workerMetrics fw5) + 1\<rparr>\<rparr>))))))
      else Some (fw, False, None))"
  by pat_completeness auto
termination
  by (relation "measure (\<lambda>(x, sequencesTested', fw).
                  nat (WorkerResetLimit (config x) + 1 - sequencesTested'))") auto

declare run_loop.simps [simp del]

text \<open>
  \<open>run\<close>. \<open>CloneChain\<close> stands for \<open>baseTestChain.Clone\<close> with the worker's initializer
  (subscribing the deployment handlers, publishing the chain-created event, attaching
  the tracer); the deferred \<open>Close\<close> runs on every path after it.
\<close>

definition run ::
  "('w, 'v) externals \<Rightarrow> ('w, 'v) FuzzerWorker \<Rightarrow>
   (('w, 'v) FuzzerWorker \<times> bool \<times> error option) option" where
  "run x fw =
     (case on_outside (CloneChain x) fw of
        (fw1, Some e) \<Rightarrow> Some (fw1, False, Some e)
      | (fw1, None) \<Rightarrow>
         (case (case on_outside (Publish x FuzzerWorkerChainSetup) fw1 of
                  (fw2, Some e) \<Rightarrow>
                    Some (fw2, False, Some (wrap_err ''error returned by an event handler when emitting a worker chain setup event'' e))
                | (fw2, None) \<Rightarrow>
                    run_loop x 0
                      (fw2\<lparr>workerMetrics := (workerMetrics fw2)
                             \<lparr>workerStartupCount := workerStartupCount (workerMetrics fw2) + 1\<rparr>,
                           testingBaseBlockNumber := HeadBlockNumber x (outside fw2)\<rparr>)) of
            None \<Rightarrow> None
          | Some (fw3, res) \<Rightarrow> Some (fw3\<lparr>outside := CloseChain x (outside fw3)\<rparr>, res)))"

section \<open>A small instance\<close>

text \<open>
  A closed instance of everything outside the worker, on which the functions above can
  be run: a chain that is only its head block number and mines one block per element,
  a context that is done after a given number of polls (or never), a supply of
  generated integers, a corpus that hands out its sequences in order, and a log of the
  lengths of the sequences handed to a shrink verifier (the latest first). A call to a
  method named \<open>fail\<close> reverts. Mutation halves a value.
\<close>

record sim_world =
  sim_head :: u64
  sim_cancel :: "nat option"
  sim_ints :: "nat list"
  sim_targets :: "nat CallSequence list"
  sim_verified :: "nat list"

definition sim_status :: "nat CallSequenceElement \<Rightarrow> u64" where
  "sim_status element =
     (case Call element of
        None \<Rightarrow> ReceiptStatusSuccessful
      | Some call \<Rightarrow>
         (case DataAbiValues call of
            None \<Rightarrow> ReceiptStatusSuccessful
          | Some d \<Rightarrow> if MethodName (AbiMethod d) = ''fail'' then ReceiptStatusFailed
                      else ReceiptStatusSuccessful))"

definition sim_externals ::
  "(nat CallSequence \<Rightarrow> sim_world \<Rightarrow> sim_world \<times> (error + (sim_world, nat) ShrinkCallSequenceRequest list)) list \<Rightarrow>
   FuzzingConfig \<Rightarrow> (sim_world, nat) externals" where
  "sim_externals testFuncs cfg =
     \<lparr>HeadBlockNumber = sim_head,
      RevertToBlockNumber = (\<lambda>n w. if n \<le> sim_head w then (w\<lparr>sim_head := n\<rparr>, None)
                                   else (w, Some (Err ''block number exceeds the chain head''))),
      CloneChain = (\<lambda>w. (w, None)),
      CloseChain = (\<lambda>w. w),
      ExecuteElement = (\<lambda>element w.
         (w\<lparr>sim_head := sim_head w + 1\<rparr>,
          Inr (element\<lparr>ChainReference := Some \<lparr>BlockMessageResults =
                 [\<lparr>Status = sim_status element, GasUsed = 21000\<rparr>], TransactionIndex = 0\<rparr>\<rparr>))),
      FillFromTestChainProperties = (\<lambda>call w. call\<lparr>Nonce := sim_head w\<rparr>),
      CheckContextDone = (\<lambda>w. case sim_cancel w of
                                   None \<Rightarrow> (w, False)
                                 | Some 0 \<Rightarrow> (w, True)
                                 | Some (Suc n) \<Rightarrow> (w\<lparr>sim_cancel := Some n\<rparr>, False)),
      UnexecutedCallSequence = (\<lambda>w. (w, None)),
      ActiveMutableSequenceCount = (\<lambda>w. length (sim_targets w)),
      RandomMutationTargetSequence = (\<lambda>w. case sim_targets w of
                                              [] \<Rightarrow> (w, Inl (Err ''the corpus is empty''))
                                            | t # ts \<Rightarrow> (w\<lparr>sim_targets := ts\<rparr>, Inr t)),
      CheckSequenceCoverageAndUpdate = (\<lambda>sequence weight persist w. (w, None)),
      AddTestResultCallSequence = (\<lambda>sequence weight persist w. (w, None)),
      Choose = (\<lambda>choices w. (w, Inr (Some (fst (hd choices))))),
      GenerateAbiValue = (\<lambda>t w. (w, 1000000)),
      GenerateInteger = (\<lambda>w. case sim_ints w of [] \<Rightarrow> (w, 0) | n # ns \<Rightarrow> (w\<lparr>sim_ints := ns\<rparr>, n)),
      MutateAbiValue = (\<lambda>m t v w. (w, v div 2, None)),
      CallSequenceTestFuncs = testFuncs,
      Publish = (\<lambda>ev w. (w, None)),
      CloneError = (\<lambda>sequence. None),
      growcap = (\<lambda>oldcap needed. 2 * oldcap),
      config = cfg,
      gen_config = \<lparr>NewSequenceProbability = 3 / 10,
                    RandomUnmodifiedCorpusHeadWeight = 800,
                    RandomUnmodifiedCorpusTailWeight = 100,
                    RandomUnmodifiedSpliceAtRandomWeight = 200,
                    RandomUnmodifiedInterleaveAtRandomWeight = 100,
                    RandomMutatedCorpusHeadWeight = 80,
                    RandomMutatedCorpusTailWeight = 10,
                    RandomMutatedSpliceAtRandomWeight = 20,
                    RandomMutatedInterleaveAtRandomWeight = 10\<rparr>\<rparr>"

definition sim_config :: FuzzingConfig where
  "sim_config =
     \<lparr>WorkerResetLimit = 3, CallSequenceLength = 1, ShrinkLimit = 4,
      MaxBlockNumberDelay = 60480, MaxBlockTimestampDelay = 604800,
      TransactionGasLimit = 12500000, TraceAll = False, senders = [0x1111, 0x2222, 0x3333]\<rparr>"

definition sim_method :: "string \<Rightarrow> DeployedContractMethod" where
  "sim_method name =
     \<lparr>dcm_Address = 0xC0, dcm_Contract = 0,
      dcm_Method = \<lparr>MethodName = name, Inputs = [''uint256''], StateMutability = ''nonpayable''\<rparr>\<rparr>"

definition sim_world0 :: sim_world where
  "sim_world0 = \<lparr>sim_head = 7, sim_cancel = None, sim_ints = [], sim_targets = [],
                  sim_verified = []\<rparr>"

definition sim_worker :: "sim_world \<Rightarrow> (sim_world, nat) FuzzerWorker" where
  "sim_worker w =
     \<lparr>outside = w, testingBaseBlockNumber = sim_head w,
      stateChangingMethods = [sim_method ''f''], pureMethods = [],
      randomProvider = (\<lambda>i. i),
      sequenceGenerator = \<lparr>baseSequence = [], fetchIndex = 0, prefetchModifyCallFunc = None\<rparr>,
      workerMetrics = \<lparr>sequencesTested = 0, callsTested = 0, gasUsed = 0, workerStartupCount = 0,
                        shrinking = False\<rparr>\<rparr>"

definition sim_call :: "string \<Rightarrow> nat \<Rightarrow> nat CallSequenceElement" where
  "sim_call name arg =
     NewCallSequenceElement 0
       (NewCallMessageWithAbiValueData 0x1111 (Some 0xC0) 0 0 12500000 None None None
          (Some \<lparr>AbiMethod = dcm_Method (sim_method name), InputValues = [arg]\<rparr>)) 0 0"

text \<open>
  A worker whose corpus holds a sequence of three calls and a sequence of one, and
  whose random source makes \<open>callSeqGenFuncInterleaveAtRandom\<close> take all of both.
\<close>

definition sim_interleave_worker :: "(sim_world, nat) FuzzerWorker" where
  "sim_interleave_worker =
     (sim_worker (sim_world0\<lparr>sim_targets :=
        [[Some (sim_call ''a'' 0), Some (sim_call ''a'' 1), Some (sim_call ''a'' 2)],
         [Some (sim_call ''b'' 0)]]\<rparr>))\<lparr>randomProvider := (\<lambda>i. 2 - i)\<rparr>"

text \<open>
  A worker whose random source makes \<open>callSeqGenFuncExpansion\<close> run three rounds on
  the element at index 1.
\<close>

definition sim_expansion_worker :: "(sim_world, nat) FuzzerWorker" where
  "sim_expansion_worker = (sim_worker sim_world0)\<lparr>randomProvider := (\<lambda>i. if i = 0 then 3 else 1)\<rparr>"

text \<open>
  The worker at the start of an epoch on that chain, with any random source, generator
  state and metrics.
\<close>

definition sim_shape ::
  "rand \<Rightarrow> nat CallSequenceGenerator \<Rightarrow> fuzzerWorkerMetrics \<Rightarrow> (sim_world, nat) FuzzerWorker" where
  "sim_shape r g m =
     \<lparr>outside = sim_world0, testingBaseBlockNumber = 7,
      stateChangingMethods = [sim_method ''f''], pureMethods = [],
      randomProvider = r, sequenceGenerator = g, workerMetrics = m\<rparr>"

text \<open>What is looked at after a run: the metrics, or the chain head and the base block.\<close>

definition metrics_after ::
  "(('w, 'v) FuzzerWorker \<times> 'a) option \<Rightarrow> (fuzzerWorkerMetrics \<times> 'a) option" where
  "metrics_after res = map_option (\<lambda>(fw, r). (workerMetrics fw, r)) res"

definition head_and_base_after ::
  "('w, 'v) externals \<Rightarrow> (('w, 'v) FuzzerWorker \<times> 'a) option \<Rightarrow> (u64 \<times> u64 \<times> 'a) option" where
  "head_and_base_after x res =
     map_option (\<lambda>(fw, r). (HeadBlockNumber x (outside fw), testingBaseBlockNumber fw, r)) res"

text \<open>A test function that fails, and the number of elements a worker has yet to fetch.\<close>

definition sim_failing_test ::
  "nat CallSequence \<Rightarrow> sim_world \<Rightarrow> sim_world \<times> (error + (sim_world, nat) ShrinkCallSequenceRequest list)" where
  "sim_failing_test sequence w = (w, Inl (Err ''the test provider failed''))"

definition remaining :: "('w, 'v) FuzzerWorker \<Rightarrow> nat" where
  "remaining fw = length (baseSequence (sequenceGenerator fw)) - fetchIndex (sequenceGenerator fw)"









lemmas sim_defs =
  sim_externals_def sim_config_def sim_method_def sim_world0_def sim_worker_def sim_status_def

lemma sim_externals_simps:
  "HeadBlockNumber (sim_externals t c) = sim_head"
  "RevertToBlockNumber (sim_externals t c) =
     (\<lambda>n w. if n \<le> sim_head w then (w\<lparr>sim_head := n\<rparr>, None)
            else (w, Some (Err ''block number exceeds the chain head'')))"
  "CloneChain (sim_externals t c) = (\<lambda>w. (w, None))"
  "CloseChain (sim_externals t c) = (\<lambda>w. w)"
  "ExecuteElement (sim_externals t c) =
     (\<lambda>element w.
         (w\<lparr>sim_head := sim_head w + 1\<rparr>,
          Inr (element\<lparr>ChainReference := Some \<lparr>BlockMessageResults =
                 [\<lparr>Status = sim_status element, GasUsed = 21000\<rparr>], TransactionIndex = 0\<rparr>\<rparr>)))"
  "FillFromTestChainProperties (sim_externals t c) = (\<lambda>call w. call\<lparr>Nonce := sim_head w\<rparr>)"
  "CheckContextDone (sim_externals t c) =
     (\<lambda>w. case sim_cancel w of
             None \<Rightarrow> (w, False)
           | Some 0 \<Rightarrow> (w, True)
           | Some (Suc n) \<Rightarrow> (w\<lparr>sim_cancel := Some n\<rparr>, False))"
  "UnexecutedCallSequence (sim_externals t c) = (\<lambda>w. (w, None))"
  "ActiveMutableSequenceCount (sim_externals t c) = (\<lambda>w. length (sim_targets w))"
  "RandomMutationTargetSequence (sim_externals t c) =
     (\<lambda>w. case sim_targets w of
             [] \<Rightarrow> (w, Inl (Err ''the corpus is empty''))
           | t # ts \<Rightarrow> (w\<lparr>sim_targets := ts\<rparr>, Inr t))"
  "CheckSequenceCoverageAndUpdate (sim_externals t c) = (\<lambda>sequence weight persist w. (w, None))"
  "AddTestResultCallSequence (sim_externals t c) = (\<lambda>sequence weight persist w. (w, None))"
  "Choose (sim_externals t c) = (\<lambda>choices w. (w, Inr (Some (fst (hd choices)))))"
  "GenerateAbiValue (sim_externals t c) = (\<lambda>t w. (w, 1000000))"
  "GenerateInteger (sim_externals t c) =
     (\<lambda>w. case sim_ints w of [] \<Rightarrow> (w, 0) | n # ns \<Rightarrow> (w\<lparr>sim_ints := ns\<rparr>, n))"
  "MutateAbiValue (sim_externals t c) = (\<lambda>m t v w. (w, v div 2, None))"
  "CallSequenceTestFuncs (sim_externals t c) = t"
  "Publish (sim_externals t c) = (\<lambda>ev w. (w, None))"
  "CloneError (sim_externals t c) = (\<lambda>sequence. None)"
  "growcap (sim_externals t c) = (\<lambda>oldcap needed. 2 * oldcap)"
  "config (sim_externals t c) = c"
  by (simp_all add: sim_externals_def)

section \<open>Properties of the coverage tracer\<close>

lemma word_lt_take_bit:
  fixes w :: "'a::len word"
  assumes "w < 2 ^ n"
  shows "take_bit n w = w"
  using less_mask_eq [OF assms] by (simp add: take_bit_eq_mask)

lemma marker_src_edge:
  fixes pc :: u64 and pos :: u256
  assumes "take_bit 32 pc = pc" and "take_bit 32 pos = pos"
  shows "marker_src (edge_marker pc pos) = pc"
proof -
  have "drop_bit 32 ((push_bit 32 (take_bit 32 pc) OR drop_bit 32 (take_bit 32 pc))
           XOR (ucast (take_bit 32 pos) :: u64)) = take_bit 32 pc"
    by (rule bit_word_eqI) (auto simp add: bit_simps)
  then show ?thesis
    by (simp add: marker_src_def edge_marker_def RotateLeft64_def assms)
qed

lemma marker_dst_edge:
  fixes pc :: u64 and pos :: u256
  assumes "take_bit 32 pc = pc" and "take_bit 32 pos = pos"
  shows "ucast (marker_dst (edge_marker pc pos)) = pos"
proof -
  have "(ucast (((push_bit 32 (take_bit 32 pc) OR drop_bit 32 (take_bit 32 pc))
           XOR (ucast (take_bit 32 pos) :: u64)) AND mask 32) :: u256) = take_bit 32 pos"
    by (rule bit_word_eqI) (auto simp add: bit_simps)
  moreover have "(0xFFFFFFFF :: u64) = mask 32"
    by (simp add: mask_eq_exp_minus_1)
  ultimately show ?thesis
    by (simp add: marker_dst_def edge_marker_def RotateLeft64_def assms)
qed

lemma CaptureState_pos_JUMPI:
  "CaptureState_pos pc JUMPI [cond, target] =
     Inr (Some (if cond \<noteq> 0 then ucast pc + 1 else target))"
  by (simp add: CaptureState_pos_def Back_def)

text \<open>
  C1. The claim: on a JUMPI step the destination in the emitted marker is the jump
  target on top of the stack when the condition below it is non-zero, and \<open>pc + 1\<close>
  when the condition is zero. \<open>CaptureState\<close> has the test the other way round
  (\<open>CaptureState_pos_JUMPI\<close>). Here it runs at \<open>pc = 10\<close> on a JUMPI whose stack has
  the target 100 on top and the condition 1 below it: the branch is taken, and the
  marker handed to \<open>SetAt\<close> carries the destination 11, the fall-through, not 100.
\<close>

theorem CaptureState_JUMPI_taken_records_fallthrough:
  "CaptureState (\<lambda>code create. (0::nat)) (\<lambda>cm a h n marker. Inr (cm @ [marker]))
     \<lparr>coverageMaps = [], callFrameStates = [\<lparr>create = False, pendingCoverageMap = [], lookupHash = None\<rparr>],
      callDepth = 0\<rparr>
     10 JUMPI \<lparr>Stack = [1, 100], ContractCode = [], ContractAddress = 0\<rparr>
   = Inr \<lparr>coverageMaps = [],
          callFrameStates = [\<lparr>create = False, pendingCoverageMap = [edge_marker 10 11], lookupHash = Some 0\<rparr>],
          callDepth = 0\<rparr>
   \<and> marker_dst (edge_marker 10 11) = 11 \<and> Back [1, 100] 0 = Inr 100 \<and> Back [1, 100] 1 = Inr 1"
  by (simp add: CaptureState_def CaptureState_pos_def Back_def JUMPI_def edge_marker_def
      RotateLeft64_def marker_dst_def)

text \<open>
  C7. For a source pc and a destination below \<open>2\<^sup>3\<^sup>2\<close>, the marker
  \<open>RotateLeft64(pc, 32) XOR dst\<close> built by \<open>CaptureState\<close> decodes, the way
  \<open>getExecFlagsMapping\<close> decodes it (\<open>marker >> 32\<close> and \<open>marker & 0xFFFFFFFF\<close>), to
  exactly that pc and that destination.
\<close>

theorem edge_marker_roundtrip:
  fixes pc :: u64 and dst :: u256
  assumes "pc < 2 ^ 32" and "dst < 2 ^ 32"
  shows "marker_src (edge_marker pc dst) = pc \<and> ucast (marker_dst (edge_marker pc dst)) = dst"
  using marker_src_edge [of pc dst] marker_dst_edge [of pc dst]
    word_lt_take_bit [OF assms(1)] word_lt_take_bit [OF assms(2)]
  by simp

theorem edge_marker_roundtrip_witness:
  "(10 :: u64) < 2 ^ 32 \<and> (100 :: u256) < 2 ^ 32 \<and>
   marker_src (edge_marker 10 100) = 10 \<and> (ucast (marker_dst (edge_marker 10 100)) :: u256) = 100"
  using edge_marker_roundtrip [of 10 100] by simp

text \<open>
  C10. After the tracer has stored its coverage maps in the additional results of a
  message result, \<open>GetCoverageTracerResults\<close> returns exactly those maps. It returns
  nil, and does not fail, when nothing is stored under the key, after
  \<open>RemoveCoverageTracerResults\<close>, and when the value under the key is of another type
  or a nil interface.
\<close>

theorem GetCoverageTracerResults_roundtrip:
  "GetCoverageTracerResults (CaptureTxEndSetAdditionalResults t results) = Some (coverageMaps t)
   \<and> GetCoverageTracerResults
        (results\<lparr>AdditionalResults := (AdditionalResults results)(coverageTracerResultsKey := None)\<rparr>) = None
   \<and> GetCoverageTracerResults (RemoveCoverageTracerResults (CaptureTxEndSetAdditionalResults t results)) = None
   \<and> GetCoverageTracerResults
        (results\<lparr>AdditionalResults := (AdditionalResults results)(coverageTracerResultsKey \<mapsto> OtherValue v)\<rparr>) = None
   \<and> GetCoverageTracerResults
        (results\<lparr>AdditionalResults := (AdditionalResults results)(coverageTracerResultsKey \<mapsto> NilInterface)\<rparr>) = None"
  by (simp add: GetCoverageTracerResults_def CaptureTxEndSetAdditionalResults_def
      RemoveCoverageTracerResults_def)

section \<open>Properties of the call sequence generator\<close>

subsection \<open>Fresh elements and their delays\<close>

lemma cap_blockNumberDelay_le: "cap_blockNumberDelay n t \<le> t"
  by (auto simp add: cap_blockNumberDelay_def word_mod_less_divisor word_greater_zero_iff
      intro: less_imp_le)

lemma generateNewElement_result:
  assumes "generateNewElement x fw = (fw', Inr element)"
  shows "\<exists>contract msg w1 w1' raw w2 w2' ts.
           sample_delay x (MaxBlockNumberDelay (config x)) w1 = (w1', Inr raw) \<and>
           sample_delay x (MaxBlockTimestampDelay (config x)) w2 = (w2', Inr ts) \<and>
           element = NewCallSequenceElement contract msg (cap_blockNumberDelay raw ts) ts"
  using assms
  unfolding generateNewElement_def on_outside_def
  by (auto split: if_splits prod.splits sum.splits simp add: Let_def) blast+

text \<open>
  C6. Every element that fresh element synthesis produces has a block number delay
  no larger than its block timestamp delay (so both are zero when the timestamp delay
  is zero); the number delay is the sampled one, reduced modulo the timestamp delay
  (or set to zero if that is zero) when the sample exceeds the timestamp delay.
\<close>

theorem generateNewElement_delay_invariant:
  assumes "generateNewElement x fw = (fw', Inr element)"
  shows "BlockNumberDelay element \<le> BlockTimestampDelay element
       \<and> (BlockTimestampDelay element = 0 \<longrightarrow> BlockNumberDelay element = 0)
       \<and> (\<exists>w w' raw. sample_delay x (MaxBlockNumberDelay (config x)) w = (w', Inr raw)
             \<and> BlockNumberDelay element =
                 (if raw > BlockTimestampDelay element
                  then (if BlockTimestampDelay element = 0 then 0 else raw mod BlockTimestampDelay element)
                  else raw))"
proof -
  from generateNewElement_result [OF assms] obtain contract msg w1 w1' raw w2 w2' ts where
    s1: "sample_delay x (MaxBlockNumberDelay (config x)) w1 = (w1', Inr raw)" and
    s2: "sample_delay x (MaxBlockTimestampDelay (config x)) w2 = (w2', Inr ts)" and
    el: "element = NewCallSequenceElement contract msg (cap_blockNumberDelay raw ts) ts"
    by blast
  have le: "BlockNumberDelay element \<le> BlockTimestampDelay element"
    by (simp add: el NewCallSequenceElement_def cap_blockNumberDelay_le)
  moreover from le have "BlockTimestampDelay element = 0 \<longrightarrow> BlockNumberDelay element = 0"
    by auto
  moreover have "BlockNumberDelay element =
                 (if raw > BlockTimestampDelay element
                  then (if BlockTimestampDelay element = 0 then 0 else raw mod BlockTimestampDelay element)
                  else raw)"
    by (simp add: el NewCallSequenceElement_def cap_blockNumberDelay_def)
  ultimately show ?thesis using s1 by blast
qed

lemma sim_generateNewElement_eval:
  "snd (generateNewElement (sim_externals [] sim_config) (sim_worker (sim_world0\<lparr>sim_ints := [50, 7]\<rparr>)))
   = Inr ((sim_call ''f'' 1000000)\<lparr>Call := map_option (\<lambda>c. c\<lparr>From := 0x2222\<rparr>) (Call (sim_call ''f'' 1000000)),
            BlockNumberDelay := 1, BlockTimestampDelay := 7\<rparr>)"
  by (simp add: generateNewElement_def select_method_def worker_Intn_def Intn_def rand_next_def
      on_outside_def sample_delay_def cap_blockNumberDelay_def NewCallMessageWithAbiValueData_def
      NewCallSequenceElement_def sim_call_def sim_defs)

theorem generateNewElement_delay_invariant_witness:
  "\<exists>fw' element.
     generateNewElement (sim_externals [] sim_config) (sim_worker (sim_world0\<lparr>sim_ints := [50, 7]\<rparr>))
       = (fw', Inr element)
     \<and> BlockNumberDelay element = 1 \<and> BlockTimestampDelay element = 7
     \<and> BlockNumberDelay element \<le> BlockTimestampDelay element"
proof -
  let ?g = "generateNewElement (sim_externals [] sim_config) (sim_worker (sim_world0\<lparr>sim_ints := [50, 7]\<rparr>))"
  let ?el = "(sim_call ''f'' 1000000)\<lparr>Call := map_option (\<lambda>c. c\<lparr>From := 0x2222\<rparr>) (Call (sim_call ''f'' 1000000)),
            BlockNumberDelay := 1, BlockTimestampDelay := 7\<rparr>"
  have e: "?g = (fst ?g, Inr ?el)"
    using sim_generateNewElement_eval by (metis prod.collapse)
  from generateNewElement_delay_invariant [OF e]
  have "BlockNumberDelay ?el \<le> BlockTimestampDelay ?el" by blast
  with e show ?thesis by (intro exI [of _ "fst ?g"] exI [of _ ?el]) simp
qed

subsection \<open>Interleaving\<close>

lemma Intn_less: "Intn r n = Inr (v, r') \<Longrightarrow> v < n"
  by (auto simp add: Intn_def split: if_splits)

lemma interleave_loop_splice_aux:
  assumes "d + (length f - i) + (length s - i) = k" and "k \<le> length sequence"
    and "max (length f) (length s) - i \<le> n"
  shows "interleave_loop n i f s (d, sequence) =
           Inr (take d sequence @ splice (drop i f) (drop i s) @ drop k sequence)"
  using assms
proof (induction n arbitrary: i d sequence)
  case 0
  then show ?case by simp
next
  case (Suc n)
  have n: "max (length f) (length s) - Suc i \<le> n" using Suc.prems by simp
  consider (both) "i < length f" "i < length s" | (first) "i < length f" "\<not> i < length s"
    | (second) "\<not> i < length f" "i < length s" | (none) "\<not> i < length f" "\<not> i < length s"
    by blast
  then show ?case
  proof cases
    case both
    let ?seq2 = "sequence[d := f ! i, Suc d := s ! i]"
    have k: "Suc (Suc d) + (length f - Suc i) + (length s - Suc i) = k"
      using Suc.prems both by simp
    have len: "k \<le> length ?seq2" using Suc.prems by simp
    have dlt: "Suc d < k" using Suc.prems both by simp
    have t: "take (Suc (Suc d)) ?seq2 = take d sequence @ [f ! i, s ! i]"
      using dlt len by (simp add: take_Suc_conv_app_nth)
    have dr: "drop k ?seq2 = drop k sequence"
      using dlt by simp
    have sp: "splice (drop i f) (drop i s) = f ! i # s ! i # splice (drop (Suc i) f) (drop (Suc i) s)"
      using both by (simp add: Cons_nth_drop_Suc [symmetric])
    have "interleave_loop (Suc n) i f s (d, sequence) = interleave_loop n (Suc i) f s (Suc (Suc d), ?seq2)"
      using both dlt len by (simp add: interleave_put_def)
    then show ?thesis
      using Suc.IH [OF k len n] by (simp add: t dr sp)
  next
    case first
    let ?seq1 = "sequence[d := f ! i]"
    have k: "Suc d + (length f - Suc i) + (length s - Suc i) = k"
      using Suc.prems first by simp
    have len: "k \<le> length ?seq1" using Suc.prems by simp
    have dlt: "d < k" using Suc.prems first by simp
    have t: "take (Suc d) ?seq1 = take d sequence @ [f ! i]"
      using dlt len by (simp add: take_Suc_conv_app_nth)
    have dr: "drop k ?seq1 = drop k sequence"
      using dlt by simp
    have sp: "splice (drop i f) (drop i s) = f ! i # splice (drop (Suc i) f) (drop (Suc i) s)"
      using first by (simp add: Cons_nth_drop_Suc [symmetric])
    have "interleave_loop (Suc n) i f s (d, sequence) = interleave_loop n (Suc i) f s (Suc d, ?seq1)"
      using first dlt len by (simp add: interleave_put_def)
    then show ?thesis
      using Suc.IH [OF k len n] by (simp add: t dr sp)
  next
    case second
    let ?seq1 = "sequence[d := s ! i]"
    have k: "Suc d + (length f - Suc i) + (length s - Suc i) = k"
      using Suc.prems second by simp
    have len: "k \<le> length ?seq1" using Suc.prems by simp
    have dlt: "d < k" using Suc.prems second by simp
    have t: "take (Suc d) ?seq1 = take d sequence @ [s ! i]"
      using dlt len by (simp add: take_Suc_conv_app_nth)
    have dr: "drop k ?seq1 = drop k sequence"
      using dlt by simp
    have sp: "splice (drop i f) (drop i s) = s ! i # splice (drop (Suc i) f) (drop (Suc i) s)"
      using second by (simp add: Cons_nth_drop_Suc [symmetric])
    have "interleave_loop (Suc n) i f s (d, sequence) = interleave_loop n (Suc i) f s (Suc d, ?seq1)"
      using second dlt len by (simp add: interleave_put_def)
    then show ?thesis
      using Suc.IH [OF k len n] by (simp add: t dr sp)
  next
    case none
    have k: "d + (length f - Suc i) + (length s - Suc i) = k"
      using Suc.prems none by simp
    have "interleave_loop (Suc n) i f s (d, sequence) = interleave_loop n (Suc i) f s (d, sequence)"
      using none by (simp add: interleave_put_def)
    then show ?thesis
      using Suc.IH [OF k Suc.prems(2) n] none by simp
  qed
qed

lemma interleave_loop_splice:
  assumes "length f + length s \<le> length sequence"
  shows "interleave_loop (max (length f) (length s)) 0 f s (0, sequence) =
           Inr (splice f s @ drop (length f + length s) sequence)"
  using interleave_loop_splice_aux [of 0 f 0 s "length f + length s" sequence "max (length f) (length s)"] assms
  by simp

lemma interleave_loop_numeral:
  "interleave_loop (numeral k) i firstSequence secondSequence st =
     (case interleave_put firstSequence i st of
        Inl e \<Rightarrow> Inl e
      | Inr st1 \<Rightarrow>
         (case interleave_put secondSequence i st1 of
            Inl e \<Rightarrow> Inl e
          | Inr st2 \<Rightarrow> interleave_loop (pred_numeral k) (i + 1) firstSequence secondSequence st2))"
  by (simp add: numeral_eq_Suc)

lemma sim_interleave_eval:
  "snd (callSeqGenFuncInterleaveAtRandom (sim_externals [] sim_config) sim_interleave_worker
          [None, None, None, None, None])
   = Inr [Some (sim_call ''a'' 0), Some (sim_call ''b'' 0), Some (sim_call ''a'' 1),
          Some (sim_call ''a'' 2), None]"
  by (simp add: callSeqGenFuncInterleaveAtRandom_def on_outside_def worker_Intn_def Intn_def
      rand_next_def interleave_put_def sim_interleave_worker_def sim_defs interleave_loop_numeral)

text \<open>
  C8. The claim: \<open>InterleaveAtRandom\<close> alternates two random-length prefixes from position
  0, stops at whichever runs out and leaves the rest to be filled fresh; with prefix
  lengths 3 and 1 and a destination of length 5, positions 0, 2, 3 and 4 come from
  the first sequence and no slot is nil. On that very input the loop runs on to the
  longer prefix, fills positions 0 to 3 with A0, B0, A1, A2, and leaves position 4 nil.
\<close>

theorem interleave_3_1_into_5_counterexample:
  "snd (callSeqGenFuncInterleaveAtRandom (sim_externals [] sim_config) sim_interleave_worker
          [None, None, None, None, None])
   = Inr [Some (sim_call ''a'' 0), Some (sim_call ''b'' 0), Some (sim_call ''a'' 1),
          Some (sim_call ''a'' 2), None]"
  by (rule sim_interleave_eval)

text \<open>
  C8, as amended. With \<open>m \<ge> 1\<close> elements taken from the first corpus sequence and \<open>k\<close> from
  the second, \<open>m + k\<close> no more than the length of the destination, the destination
  afterwards begins with the two prefixes alternating (A0, B0, A1, B1, ...) until the
  shorter is used up, followed by what is left of the longer; the slots after these
  \<open>m + k\<close> are as they were (nil, to be filled fresh).
\<close>

theorem callSeqGenFuncInterleaveAtRandom_splice:
  assumes "RandomMutationTargetSequence x (outside fw) = (w1, Inr firstCorpusSequence)"
    and "RandomMutationTargetSequence x w1 = (w2, Inr secondCorpusSequence)"
    and "callSeqGenFuncInterleaveAtRandom x fw sequence = (fw', Inr sequence')"
  shows "\<exists>m k. 1 \<le> m \<and> m \<le> length firstCorpusSequence \<and> k \<le> length secondCorpusSequence
           \<and> m + k \<le> length sequence
           \<and> sequence' = splice (take m firstCorpusSequence) (take k secondCorpusSequence)
                            @ drop (m + k) sequence"
proof -
  from assms obtain n r1 where
    n: "Intn (randomProvider fw) (min (length sequence) (length firstCorpusSequence)) = Inr (n, r1)"
    by (auto simp add: callSeqGenFuncInterleaveAtRandom_def on_outside_def worker_Intn_def
        split: sum.splits prod.splits)
  with assms obtain k r2 where
    k: "Intn r1 (min (length sequence - (n + 1)) (length secondCorpusSequence) + 1) = Inr (k, r2)"
    and res: "interleave_loop (max (n + 1) k) 0 (take (n + 1) firstCorpusSequence)
                (take k secondCorpusSequence) (0, sequence) = Inr sequence'"
    by (auto simp add: callSeqGenFuncInterleaveAtRandom_def on_outside_def worker_Intn_def Let_def
        split: sum.splits prod.splits)
  from Intn_less [OF n] have nlt: "n < min (length sequence) (length firstCorpusSequence)" .
  from Intn_less [OF k] have kle: "k \<le> min (length sequence - (n + 1)) (length secondCorpusSequence)"
    by arith
  have lf: "length (take (n + 1) firstCorpusSequence) = n + 1" using nlt by simp
  have ls: "length (take k secondCorpusSequence) = k" using kle by simp
  have fit: "length (take (n + 1) firstCorpusSequence) + length (take k secondCorpusSequence) \<le> length sequence"
    using nlt kle lf ls by arith
  from interleave_loop_splice [OF fit] res
  have "sequence' = splice (take (n + 1) firstCorpusSequence) (take k secondCorpusSequence)
                      @ drop (n + 1 + k) sequence"
    by (simp only: lf ls) simp
  moreover have "n + 1 + k \<le> length sequence" using nlt kle by arith
  ultimately show ?thesis using nlt kle
    by (rule_tac x = "n + 1" in exI, rule_tac x = k in exI) simp
qed

theorem callSeqGenFuncInterleaveAtRandom_splice_witness:
  "\<exists>m k. 1 \<le> m
     \<and> m \<le> length [Some (sim_call ''a'' 0), Some (sim_call ''a'' 1), Some (sim_call ''a'' 2)]
     \<and> k \<le> length [Some (sim_call ''b'' 0)]
     \<and> m + k \<le> length [None, None, None, None, None :: nat CallSequenceElement option]
     \<and> [Some (sim_call ''a'' 0), Some (sim_call ''b'' 0), Some (sim_call ''a'' 1),
          Some (sim_call ''a'' 2), None]
       = splice (take m [Some (sim_call ''a'' 0), Some (sim_call ''a'' 1), Some (sim_call ''a'' 2)])
                (take k [Some (sim_call ''b'' 0)]) @ drop (m + k) [None, None, None, None, None]"
proof -
  let ?x = "sim_externals [] sim_config"
  let ?w0 = "outside sim_interleave_worker"
  let ?A = "[Some (sim_call ''a'' 0), Some (sim_call ''a'' 1), Some (sim_call ''a'' 2)]"
  let ?B = "[Some (sim_call ''b'' 0)]"
  let ?dst = "[None, None, None, None, None :: nat CallSequenceElement option]"
  have a: "RandomMutationTargetSequence ?x ?w0 = (?w0\<lparr>sim_targets := [?B]\<rparr>, Inr ?A)"
    by (simp add: sim_interleave_worker_def sim_defs)
  have b: "RandomMutationTargetSequence ?x (?w0\<lparr>sim_targets := [?B]\<rparr>) = (?w0\<lparr>sim_targets := []\<rparr>, Inr ?B)"
    by (simp add: sim_interleave_worker_def sim_defs)
  have c: "callSeqGenFuncInterleaveAtRandom ?x sim_interleave_worker ?dst
        = (fst (callSeqGenFuncInterleaveAtRandom ?x sim_interleave_worker ?dst),
           Inr [Some (sim_call ''a'' 0), Some (sim_call ''b'' 0), Some (sim_call ''a'' 1),
                Some (sim_call ''a'' 2), None])"
    using sim_interleave_eval by (metis prod.collapse)
  show ?thesis
    by (rule callSeqGenFuncInterleaveAtRandom_splice [OF a b c])
qed

subsection \<open>Expansion\<close>

lemma go_append_len: "go_append gc h s xs = (h', s') \<Longrightarrow> sl_len s' = sl_len s + length xs"
  by (auto simp add: go_append_def Let_def split: if_splits)

lemma go_append_frame:
  assumes "go_append gc h s xs = (h', s')" and "sl_ptr s \<noteq> p" and "p < next_id h"
  shows "arrays h' p = arrays h p \<and> sl_ptr s' \<noteq> p \<and> next_id h \<le> next_id h'"
  using assms by (auto simp add: go_append_def Let_def split: if_splits)

lemma go_append_grow:
  assumes "go_append gc h s xs = (h', s')" and "sl_cap s < sl_len s + length xs" and "p < next_id h"
  shows "arrays h' p = arrays h p \<and> sl_ptr s' \<noteq> p \<and> next_id h \<le> next_id h'"
  using assms by (auto simp add: go_append_def Let_def split: if_splits)

lemma go_literal1_frame:
  assumes "go_literal1 h v = (h', s')" and "p < next_id h"
  shows "arrays h' p = arrays h p \<and> sl_ptr s' \<noteq> p \<and> next_id h \<le> next_id h' \<and> sl_len s' = 1 \<and> sl_cap s' = 1"
  using assms by (auto simp add: go_literal1_def)

lemma go_reslice_ptr: "go_reslice s a b = Inr s' \<Longrightarrow> sl_ptr s' = sl_ptr s \<and> sl_len s' = b - a \<and> sl_cap s' = sl_cap s - a \<and> a \<le> b \<and> b \<le> sl_cap s"
  by (auto simp add: go_reslice_def split: if_splits)

lemma slice_read_len: "sl_off s + sl_len s \<le> length (arrays h (sl_ptr s)) \<Longrightarrow> length (slice_read h s) = sl_len s"
  by (simp add: slice_read_def)


lemma go_literal1_len: "go_literal1 h v = (h', s') \<Longrightarrow> sl_len s' = 1 \<and> sl_cap s' = 1"
  by (auto simp add: go_literal1_def)

lemma slice_read_le: "length (slice_read h s) \<le> sl_len s"
  by (simp add: slice_read_def)

lemma Expansion_loop_len:
  "callSeqGenFuncExpansion_loop gc dup n i randIndex h s = (h', Inr local) \<Longrightarrow>
   sl_len local \<le> sl_len s + n"
proof (induction n arbitrary: i randIndex h s)
  case 0
  then show ?case by simp
next
  case (Suc n)
  show ?case
  proof (cases "randIndex + i < sl_len s")
    case True
    with Suc.prems obtain h1 lit tailSlice h2 inner headSlice h3 s3 where
      lit: "go_literal1 h dup = (h1, lit)" and
      tl: "go_reslice s (randIndex + i) (sl_len s) = Inr tailSlice" and
      inner: "go_append gc h1 lit (slice_read h1 tailSlice) = (h2, inner)" and
      hd: "go_reslice s 0 (randIndex + i) = Inr headSlice" and
      out: "go_append gc h2 headSlice (slice_read h2 inner) = (h3, s3)" and
      rest: "callSeqGenFuncExpansion_loop gc dup n (i + 1) (randIndex + i) h3 s3 = (h', Inr local)"
      by (auto simp add: Let_def split: prod.splits sum.splits)
    have "sl_len inner \<le> 1 + (sl_len s - (randIndex + i))"
      using go_append_len [OF inner] go_literal1_len [OF lit] go_reslice_ptr [OF tl]
        slice_read_le [of h1 tailSlice] by simp
    then have "sl_len s3 \<le> sl_len s + 1"
      using go_append_len [OF out] go_reslice_ptr [OF hd] slice_read_le [of h2 inner] True by simp
    with Suc.IH [OF rest] show ?thesis by simp
  next
    case False
    with Suc.prems obtain h1 s1 where
      ap: "go_append gc h s [dup] = (h1, s1)" and
      rest: "callSeqGenFuncExpansion_loop gc dup n (i + 1) (randIndex + i) h1 s1 = (h', Inr local)"
      by (auto simp add: Let_def split: prod.splits sum.splits)
    from go_append_len [OF ap] Suc.IH [OF rest] show ?thesis by simp
  qed
qed

lemma Expansion_loop_frame:
  "callSeqGenFuncExpansion_loop gc dup n i randIndex h s = (h', res) \<Longrightarrow>
   sl_ptr s \<noteq> p \<Longrightarrow> p < next_id h \<Longrightarrow> arrays h' p = arrays h p"
proof (induction n arbitrary: i randIndex h s)
  case 0
  then show ?case by simp
next
  case (Suc n)
  show ?case
  proof (cases "randIndex + i < sl_len s")
    case True
    obtain h1 lit where lit: "go_literal1 h dup = (h1, lit)" by (cases "go_literal1 h dup")
    note l = go_literal1_frame [OF lit Suc.prems(3)]
    show ?thesis
    proof (cases "go_reslice s (randIndex + i) (sl_len s)")
      case (Inl e)
      with Suc.prems True lit l show ?thesis by (simp add: Let_def)
    next
      case (Inr tailSlice)
      obtain h2 inner where inner: "go_append gc h1 lit (slice_read h1 tailSlice) = (h2, inner)"
        by (cases "go_append gc h1 lit (slice_read h1 tailSlice)")
      have p1: "p < next_id h1" using l Suc.prems(3) by simp
      note a = go_append_frame [OF inner _ p1]
      have p2: "p < next_id h2" using a l p1 by simp
      show ?thesis
      proof (cases "go_reslice s 0 (randIndex + i)")
        case (Inl e)
        with Suc.prems True lit l Inr inner a show ?thesis by (simp add: Let_def)
      next
        case hd: (Inr headSlice)
        obtain h3 s3 where out: "go_append gc h2 headSlice (slice_read h2 inner) = (h3, s3)"
          by (cases "go_append gc h2 headSlice (slice_read h2 inner)")
        have hp: "sl_ptr headSlice \<noteq> p" using go_reslice_ptr [OF hd] Suc.prems(2) by simp
        note b = go_append_frame [OF out hp p2]
        have rest: "callSeqGenFuncExpansion_loop gc dup n (i + 1) (randIndex + i) h3 s3 = (h', res)"
          using Suc.prems(1) True lit Inr inner hd out by (simp add: Let_def)
        have "arrays h' p = arrays h3 p"
          using Suc.IH [OF rest] b p2 by simp
        then show ?thesis using a b l by simp
      qed
    qed
  next
    case False
    obtain h1 s1 where ap: "go_append gc h s [dup] = (h1, s1)" by (cases "go_append gc h s [dup]")
    note a = go_append_frame [OF ap Suc.prems(2) Suc.prems(3)]
    have rest: "callSeqGenFuncExpansion_loop gc dup n (i + 1) (randIndex + i) h1 s1 = (h', res)"
      using Suc.prems(1) False ap by (simp add: Let_def)
    have "arrays h' p = arrays h1 p" using Suc.IH [OF rest] a Suc.prems(3) by simp
    then show ?thesis using a by simp
  qed
qed

lemma Expansion_first_round:
  assumes "randIndex < length sequence"
  shows "\<exists>h3 s3. callSeqGenFuncExpansion_loop gc dup (Suc m) 0 randIndex
                    (base_heap sequence) (base_slice sequence)
                  = callSeqGenFuncExpansion_loop gc dup m 1 randIndex h3 s3
               \<and> arrays h3 0 = sequence \<and> sl_ptr s3 \<noteq> 0 \<and> 0 < next_id h3"
proof -
  have a1: "\<not> Suc (length sequence) - randIndex \<le> Suc 0" using assms by arith
  show ?thesis
    using assms
    apply (simp add: go_literal1_def go_reslice_def go_append_def slice_read_def base_heap_def
        base_slice_def Let_def a1)
    apply (rule exI, rule exI, rule conjI, rule refl)
    apply simp
    done
qed

lemma Expansion_loop_base:
  assumes "randIndex < length sequence"
    and "callSeqGenFuncExpansion_loop gc dup n 0 randIndex (base_heap sequence) (base_slice sequence)
           = (h', res)"
  shows "arrays h' 0 = sequence"
proof (cases n)
  case 0
  with assms(2) show ?thesis by (auto simp add: base_heap_def)
next
  case (Suc m)
  from Expansion_first_round [OF assms(1), of gc dup m] obtain h3 s3 where
    step: "callSeqGenFuncExpansion_loop gc dup (Suc m) 0 randIndex (base_heap sequence) (base_slice sequence)
             = callSeqGenFuncExpansion_loop gc dup m 1 randIndex h3 s3"
    and h3: "arrays h3 0 = sequence" "sl_ptr s3 \<noteq> 0" "0 < next_id h3"
    by blast
  from assms(2) Suc step have "callSeqGenFuncExpansion_loop gc dup m 1 randIndex h3 s3 = (h', res)"
    by simp
  from Expansion_loop_frame [OF this h3(2) h3(3)] h3(1) show ?thesis by simp
qed

lemma Expansion_store_base:
  assumes "callSeqGenFuncExpansion_store gc r (base_heap sequence) (base_slice sequence) = (r', h', res)"
  shows "slice_read h' (base_slice sequence) = sequence
       \<and> (\<forall>local. res = Inr local \<longrightarrow> sl_len local \<le> length sequence + 30)"
proof -
  have base: "slice_read (base_heap sequence) (base_slice sequence) = sequence"
    by (simp add: slice_read_def base_heap_def base_slice_def)
  show ?thesis
  proof (cases "Intn r 31")
    case (Inl e)
    with assms base show ?thesis by (auto simp add: callSeqGenFuncExpansion_store_def)
  next
    case (Inr a)
    then obtain rounds r1 where r1: "Intn r 31 = Inr (rounds, r1)" by (cases a) simp
    have rounds: "rounds \<le> 30" using Intn_less [OF r1] by simp
    show ?thesis
    proof (cases "Intn r1 (sl_len (base_slice sequence))")
      case (Inl e)
      with assms base r1 show ?thesis by (auto simp add: callSeqGenFuncExpansion_store_def)
    next
      case (Inr b)
      then obtain randIndex r2 where r2: "Intn r1 (sl_len (base_slice sequence)) = Inr (randIndex, r2)"
        by (cases b) simp
      have ri: "randIndex < length sequence" using Intn_less [OF r2] by (simp add: base_slice_def)
      show ?thesis
      proof (cases "go_index (base_heap sequence) (base_slice sequence) randIndex")
        case (Inl e)
        with assms base r1 r2 show ?thesis by (auto simp add: callSeqGenFuncExpansion_store_def)
      next
        case (Inr dup)
        with assms r1 r2 have loop:
          "callSeqGenFuncExpansion_loop gc dup rounds 0 randIndex (base_heap sequence) (base_slice sequence)
             = (h', res)"
          by (simp add: callSeqGenFuncExpansion_store_def split: prod.splits)
        from Expansion_loop_base [OF ri loop] have "slice_read h' (base_slice sequence) = sequence"
          by (simp add: slice_read_def base_slice_def)
        moreover have "\<forall>local. res = Inr local \<longrightarrow> sl_len local \<le> length sequence + 30"
        proof (intro allI impI)
          fix local assume "res = Inr local"
          with loop Expansion_loop_len [of gc dup rounds 0 randIndex "base_heap sequence" "base_slice sequence" h' local]
          show "sl_len local \<le> length sequence + 30" using rounds by (simp add: base_slice_def)
        qed
        ultimately show ?thesis by blast
      qed
    qed
  qed
qed

lemmas Expansion_loop_numeral =
  callSeqGenFuncExpansion_loop.simps(2) [of _ _ "pred_numeral k" for k, folded numeral_eq_Suc]

lemma sim_expansion_store_eval:
  "snd (snd (callSeqGenFuncExpansion_store (\<lambda>oldcap needed. 2 * oldcap) (\<lambda>i. if i = 0 then 3 else 1)
          (base_heap [Some (sim_call ''a'' 0), Some (sim_call ''a'' 1), None, None, None])
          (base_slice [Some (sim_call ''a'' 0), Some (sim_call ''a'' 1), None, None, None])))
   = Inr \<lparr>sl_ptr = 3, sl_off = 0, sl_len = 8, sl_cap = 10\<rparr>"
  by (simp add: callSeqGenFuncExpansion_store_def Intn_def rand_next_def go_index_def base_heap_def base_slice_def
     Expansion_loop_numeral go_literal1_def go_reslice_def go_append_def slice_read_def list_write_def Let_def)

lemma sim_expansion_eval:
  "snd (callSeqGenFuncExpansion (sim_externals [] sim_config) sim_expansion_worker
          [Some (sim_call ''a'' 0), Some (sim_call ''a'' 1), None, None, None])
   = Inr [Some (sim_call ''a'' 0), Some (sim_call ''a'' 1), None, None, None]"
  by (simp add: callSeqGenFuncExpansion_def sim_externals_simps sim_expansion_worker_def sim_worker_def
     callSeqGenFuncExpansion_store_def Intn_def rand_next_def go_index_def base_heap_def base_slice_def
     Expansion_loop_numeral go_literal1_def go_reslice_def go_append_def slice_read_def list_write_def Let_def)

text \<open>
  C9. A run of the Expansion strategy replicates the chosen element at most 30 times,
  by insertion into its own \<open>sequence\<close> variable (a slice of at most 30 more elements
  than the base sequence at the end); the base sequence of the generator, which
  \<open>PopSequenceElement\<close> fetches from, is afterwards what it was, and so as long as it was:
  nothing grows past the configured length.
\<close>

theorem callSeqGenFuncExpansion_bounded:
  assumes "callSeqGenFuncExpansion x fw sequence = (fw', Inr sequence')"
  shows "sequence' = sequence
       \<and> (\<exists>r h local. callSeqGenFuncExpansion_store (growcap x) (randomProvider fw)
                          (base_heap sequence) (base_slice sequence) = (r, h, Inr local)
            \<and> sl_len local \<le> length sequence + 30)"
proof -
  obtain r h res where
    st: "callSeqGenFuncExpansion_store (growcap x) (randomProvider fw)
           (base_heap sequence) (base_slice sequence) = (r, h, res)"
    by (metis prod_cases3)
  with assms obtain local where res: "res = Inr local"
    and seq: "sequence' = slice_read h (base_slice sequence)"
    by (auto simp add: callSeqGenFuncExpansion_def split: sum.splits)
  from Expansion_store_base [OF st] res seq st show ?thesis by blast
qed

theorem callSeqGenFuncExpansion_bounded_witness:
  "\<exists>fw'. callSeqGenFuncExpansion (sim_externals [] sim_config) sim_expansion_worker
            [Some (sim_call ''a'' 0), Some (sim_call ''a'' 1), None, None, None]
          = (fw', Inr [Some (sim_call ''a'' 0), Some (sim_call ''a'' 1), None, None, None])
     \<and> (\<exists>r h local. callSeqGenFuncExpansion_store (growcap (sim_externals [] sim_config))
                         (randomProvider sim_expansion_worker)
                         (base_heap [Some (sim_call ''a'' 0), Some (sim_call ''a'' 1), None, None, None])
                         (base_slice [Some (sim_call ''a'' 0), Some (sim_call ''a'' 1), None, None, None])
                       = (r, h, Inr local)
            \<and> sl_len local \<le> length [Some (sim_call ''a'' 0), Some (sim_call ''a'' 1), None, None, None] + 30)"
proof -
  let ?s = "[Some (sim_call ''a'' 0), Some (sim_call ''a'' 1), None, None, None]"
  let ?g = "callSeqGenFuncExpansion (sim_externals [] sim_config) sim_expansion_worker ?s"
  have e: "?g = (fst ?g, Inr ?s)"
    using sim_expansion_eval by (metis prod.collapse)
  from callSeqGenFuncExpansion_bounded [OF e] e show ?thesis by blast
qed

section \<open>Properties of the worker\<close>

subsection \<open>The executor returns\<close>

lemma Execute_terminates:
  assumes step: "\<And>n s s1 el s2 el' ex' s3.
      fetch n s = (s1, Inr (Some el)) \<Longrightarrow> exec el s1 = (s2, Inr el') \<Longrightarrow>
      check ex' s2 = (s3, Inr False) \<Longrightarrow> M s3 (Suc n) < (M s n :: nat)"
  shows "\<exists>r. ExecuteCallSequenceIteratively exec fetch check s ex = Some r"
proof (induction "M s (length ex)" arbitrary: s ex rule: less_induct)
  case less
  obtain s1 r1 where f: "fetch (length ex) s = (s1, r1)" by (cases "fetch (length ex) s")
  show ?case
  proof (cases r1)
    case (Inl e)
    with f show ?thesis by (subst ExecuteCallSequenceIteratively.simps) simp
  next
    case (Inr o1)
    show ?thesis
    proof (cases o1)
      case None
      with f Inr show ?thesis by (subst ExecuteCallSequenceIteratively.simps) simp
    next
      case (Some el)
      obtain s2 r2 where e: "exec el s1 = (s2, r2)" by (cases "exec el s1")
      show ?thesis
      proof (cases r2)
        case (Inl e2)
        with f Inr Some e show ?thesis by (subst ExecuteCallSequenceIteratively.simps) simp
      next
        case r2: (Inr el')
        obtain s3 r3 where c: "check (ex @ [el']) s2 = (s3, r3)" by (cases "check (ex @ [el']) s2")
        show ?thesis
        proof (cases r3)
          case (Inl e3)
          with f Inr Some e r2 c show ?thesis by (subst ExecuteCallSequenceIteratively.simps) simp
        next
          case r3: (Inr b)
          show ?thesis
          proof (cases b)
            case True
            with f Inr Some e r2 c r3 show ?thesis by (subst ExecuteCallSequenceIteratively.simps) simp
          next
            case False
            have "M s3 (Suc (length ex)) < M s (length ex)"
              using step [of "length ex" s s1 el s2 el' "ex @ [el']" s3] f Inr Some e r2 c r3 False
              by simp
            then have "M s3 (length (ex @ [el'])) < M s (length ex)" by simp
            from less [OF this] obtain r where
              "ExecuteCallSequenceIteratively exec fetch check s3 (ex @ [el']) = Some r" by blast
            with f Inr Some e r2 c r3 False show ?thesis
              by (subst ExecuteCallSequenceIteratively.simps) simp
          qed
        qed
      qed
    qed
  qed
qed


subsection \<open>Running the instance\<close>

lemmas worker_eval_defs =
  testNextCallSequence_def testNextCallSequence_body_def InitializeNextSequence_def
  mutationStrategyChoices_def testNext_fetchElementFunc_def PopSequenceElement_def
  generateNewElement_def select_method_def worker_Intn_def Intn_def rand_next_def on_outside_def
  sample_delay_def cap_blockNumberDelay_def NewCallMessageWithAbiValueData_def
  NewCallSequenceElement_def testNext_exec_def worker_exec_def testNext_executionCheckFunc_def
  getNewCorpusCallSequenceWeight_def element_receipt_def deferred_revert_def Let_def
  sim_externals_simps

lemma sim_testNext_eval:
  "\<exists>r' g' seq.
     testNextCallSequence (sim_externals [] sim_config) (sim_shape r g m)
       = Some (sim_shape r' g' (m\<lparr>callsTested := callsTested m + 1, gasUsed := gasUsed m + 21000\<rparr>),
               Inr (seq, []))"
  apply (simp add: sim_shape_def sim_config_def sim_world0_def sim_method_def worker_eval_defs)
  apply (subst ExecuteCallSequenceIteratively.simps)
  apply (simp add: worker_eval_defs)
  apply (subst ExecuteCallSequenceIteratively.simps)
  apply (simp add: worker_eval_defs)
  done

lemma sim_run_loop_step:
  assumes "i \<le> 3"
  shows "\<exists>r' g' m'. run_loop (sim_externals [] sim_config) i (sim_shape r g m)
            = run_loop (sim_externals [] sim_config) (i + 1) (sim_shape r' g' m')
          \<and> m' = m\<lparr>callsTested := callsTested m + 1, gasUsed := gasUsed m + 21000,
                     sequencesTested := sequencesTested m + 1\<rparr>"
proof -
  from sim_testNext_eval [of r g m] obtain r' g' seq where
    t: "testNextCallSequence (sim_externals [] sim_config) (sim_shape r g m)
       = Some (sim_shape r' g' (m\<lparr>callsTested := callsTested m + 1, gasUsed := gasUsed m + 21000\<rparr>),
               Inr (seq, []))" by blast
  have pre: "on_outside (CheckContextDone (sim_externals [] sim_config)) (sim_shape r g m) = (sim_shape r g m, False)"
       "on_outside (Publish (sim_externals [] sim_config) ev) (sim_shape r g m) = (sim_shape r g m, None)" for ev r g m
    by (simp_all add: on_outside_def sim_externals_simps sim_shape_def sim_world0_def)
  have lim: "WorkerResetLimit (config (sim_externals [] sim_config)) = 3"
    by (simp add: sim_externals_simps sim_config_def)
  have "run_loop (sim_externals [] sim_config) i (sim_shape r g m)
      = run_loop (sim_externals [] sim_config) (i + 1)
          (sim_shape r' g' (m\<lparr>callsTested := callsTested m + 1, gasUsed := gasUsed m + 21000,
                               sequencesTested := sequencesTested m + 1\<rparr>))"
    apply (subst run_loop.simps)
    apply (simp add: assms lim pre t)
    apply (simp add: sim_shape_def)
    done
  then show ?thesis by blast
qed

lemma sim_run_loop_end:
  "run_loop (sim_externals [] sim_config) 4 fw = Some (fw, False, None)"
  by (subst run_loop.simps) (simp add: sim_externals_simps sim_config_def)

lemma sim_run_eval:
  "\<exists>fw'. run (sim_externals [] sim_config) (sim_worker sim_world0) = Some (fw', False, None)
       \<and> workerMetrics fw' = \<lparr>sequencesTested = 4, callsTested = 4, gasUsed = 84000,
                               workerStartupCount = 1, shrinking = False\<rparr>"
proof -
  let ?x = "sim_externals [] sim_config"
  let ?m0 = "\<lparr>sequencesTested = 0, callsTested = 0, gasUsed = 0, workerStartupCount = 1, shrinking = False\<rparr>"
  let ?g0 = "\<lparr>baseSequence = [], fetchIndex = 0, prefetchModifyCallFunc = None\<rparr> :: nat CallSequenceGenerator"
  have start: "run ?x (sim_worker sim_world0) =
      (case run_loop ?x 0 (sim_shape (\<lambda>i. i) ?g0 ?m0) of
         None \<Rightarrow> None
       | Some (fw3, res) \<Rightarrow> Some (fw3\<lparr>outside := CloseChain ?x (outside fw3)\<rparr>, res))"
    by (simp add: run_def on_outside_def sim_externals_simps sim_worker_def sim_shape_def sim_world0_def)
  have le0: "(0::int) \<le> 3" and le1: "(1::int) \<le> 3" and le2: "(2::int) \<le> 3"
    and le3: "(3::int) \<le> 3" by simp_all
  from sim_run_loop_step [OF le0, of "\<lambda>i. i" ?g0 ?m0] obtain r1 g1 m1 where
    s1: "run_loop ?x 0 (sim_shape (\<lambda>i. i) ?g0 ?m0) = run_loop ?x (0 + 1) (sim_shape r1 g1 m1)"
    and m1: "m1 = ?m0\<lparr>callsTested := callsTested ?m0 + 1, gasUsed := gasUsed ?m0 + 21000,
                       sequencesTested := sequencesTested ?m0 + 1\<rparr>"
    by blast
  from sim_run_loop_step [OF le1, of r1 g1 m1] obtain r2 g2 m2 where
    s2: "run_loop ?x 1 (sim_shape r1 g1 m1) = run_loop ?x (1 + 1) (sim_shape r2 g2 m2)"
    and m2: "m2 = m1\<lparr>callsTested := callsTested m1 + 1, gasUsed := gasUsed m1 + 21000,
                      sequencesTested := sequencesTested m1 + 1\<rparr>"
    by blast
  from sim_run_loop_step [OF le2, of r2 g2 m2] obtain r3 g3 m3 where
    s3: "run_loop ?x 2 (sim_shape r2 g2 m2) = run_loop ?x (2 + 1) (sim_shape r3 g3 m3)"
    and m3: "m3 = m2\<lparr>callsTested := callsTested m2 + 1, gasUsed := gasUsed m2 + 21000,
                      sequencesTested := sequencesTested m2 + 1\<rparr>"
    by blast
  from sim_run_loop_step [OF le3, of r3 g3 m3] obtain r4 g4 m4 where
    s4: "run_loop ?x 3 (sim_shape r3 g3 m3) = run_loop ?x (3 + 1) (sim_shape r4 g4 m4)"
    and m4: "m4 = m3\<lparr>callsTested := callsTested m3 + 1, gasUsed := gasUsed m3 + 21000,
                      sequencesTested := sequencesTested m3 + 1\<rparr>"
    by blast
  have "run_loop ?x 0 (sim_shape (\<lambda>i. i) ?g0 ?m0) = Some (sim_shape r4 g4 m4, False, None)"
    using s1 s2 s3 s4 sim_run_loop_end [of "sim_shape r4 g4 m4"] by simp
  moreover have "m4 = \<lparr>sequencesTested = 4, callsTested = 4, gasUsed = 84000,
                         workerStartupCount = 1, shrinking = False\<rparr>"
    by (simp add: m1 m2 m3 m4)
  ultimately show ?thesis using start by (simp add: sim_shape_def)
qed

text \<open>
  C3. The claim: an epoch that is not cancelled returns normally after exactly
  \<open>worker_reset_limit\<close> call sequences. The loop of \<open>run\<close> goes on while
  \<open>sequencesTested <= WorkerResetLimit\<close>. With a limit of 3, on a chain where nothing
  fails and nothing is cancelled, the worker returns normally after four sequences
  (four calls, one per sequence), not three.
\<close>

theorem run_limit_3_tests_4_sequences:
  "WorkerResetLimit (config (sim_externals [] sim_config)) = 3
   \<and> metrics_after (run (sim_externals [] sim_config) (sim_worker sim_world0))
       = Some (\<lparr>sequencesTested = 4, callsTested = 4, gasUsed = 84000,
                 workerStartupCount = 1, shrinking = False\<rparr>, False, None)"
  using sim_run_eval
  by (auto simp add: metrics_after_def sim_externals_simps sim_config_def)

subsection \<open>testNextCallSequence and the deferred revert\<close>

lemma sim_testNext_error_eval:
  "head_and_base_after (sim_externals [sim_failing_test] sim_config)
     (testNextCallSequence (sim_externals [sim_failing_test] sim_config) (sim_worker sim_world0))
   = Some (8, 7, Inl (Err ''the test provider failed''))"
  apply (simp add: head_and_base_after_def sim_worker_def sim_config_def sim_world0_def sim_method_def worker_eval_defs)
  apply (subst ExecuteCallSequenceIteratively.simps)
  apply (simp add: worker_eval_defs sim_failing_test_def)
  done

text \<open>
  C2. The claim: on every exit path of \<open>testNextCallSequence\<close>, error returns included,
  the chain is reverted to the testing base block, so that its head is the base block
  right after the return. Here a test function fails after the first element was
  mined: the operation returns that error, the chain head is 8, the testing base
  block is 7.
\<close>

theorem testNextCallSequence_error_leaves_chain_counterexample:
  "head_and_base_after (sim_externals [sim_failing_test] sim_config)
     (testNextCallSequence (sim_externals [sim_failing_test] sim_config) (sim_worker sim_world0))
   = Some (8, 7, Inl (Err ''the test provider failed''))"
  by (rule sim_testNext_error_eval)

text \<open>What the generator holds is touched by \<open>PopSequenceElement\<close> alone.\<close>

lemma worker_Intn_generator:
  "worker_Intn fw n = (fw', r) \<Longrightarrow> sequenceGenerator fw' = sequenceGenerator fw"
  by (auto simp add: worker_Intn_def split: sum.splits)

lemma on_outside_generator:
  "on_outside f fw = (fw', r) \<Longrightarrow> sequenceGenerator fw' = sequenceGenerator fw"
  by (auto simp add: on_outside_def split: prod.splits)

lemma select_method_generator:
  "select_method fw = (fw', r) \<Longrightarrow> sequenceGenerator fw' = sequenceGenerator fw"
  by (auto simp add: select_method_def Let_def split: if_splits prod.splits sum.splits
      dest!: worker_Intn_generator)

lemma generateNewElement_generator:
  "generateNewElement x fw = (fw', r) \<Longrightarrow> sequenceGenerator fw' = sequenceGenerator fw"
  by (auto simp add: generateNewElement_def Let_def split: if_splits prod.splits sum.splits
      dest!: worker_Intn_generator select_method_generator on_outside_generator)

lemma prefetchModifyCallFuncMutate_generator:
  "prefetchModifyCallFuncMutate x fw element = (fw', r) \<Longrightarrow> sequenceGenerator fw' = sequenceGenerator fw"
  by (auto simp add: prefetchModifyCallFuncMutate_def split: option.splits prod.splits sum.splits
      dest!: on_outside_generator)

lemma PopSequenceElement_remaining:
  assumes "PopSequenceElement x fw = (fw', Inr (Some element))"
  shows "remaining fw' < remaining fw"
  using assms
  by (auto simp add: PopSequenceElement_def remaining_def Let_def
      split: if_splits option.splits prod.splits sum.splits prefetch_func.splits
      dest!: generateNewElement_generator prefetchModifyCallFuncMutate_generator)

lemma testNext_exec_remaining:
  "testNext_exec x element (fw, reqs) = ((fw', reqs'), r) \<Longrightarrow> remaining fw' = remaining fw"
  by (auto simp add: testNext_exec_def worker_exec_def remaining_def split: prod.splits
      dest!: on_outside_generator)

lemma testNext_executionCheckFunc_remaining:
  "testNext_executionCheckFunc x executed (fw, reqs) = ((fw', reqs'), r) \<Longrightarrow> remaining fw' = remaining fw"
  by (auto simp add: testNext_executionCheckFunc_def remaining_def Let_def
      split: prod.splits option.splits sum.splits if_splits bool.splits
      dest!: on_outside_generator)

lemma testNext_Execute_returns:
  "\<exists>r. ExecuteCallSequenceIteratively (testNext_exec x) (testNext_fetchElementFunc x)
         (testNext_executionCheckFunc x) s ex = Some r"
proof (rule Execute_terminates [where M = "\<lambda>s n. remaining (fst s)"])
  fix n s s1 el s2 el' ex' s3
  assume f: "testNext_fetchElementFunc x n s = (s1, Inr (Some el))"
    and e: "testNext_exec x el s1 = (s2, Inr el')"
    and c: "testNext_executionCheckFunc x ex' s2 = (s3, Inr False)"
  from f have "remaining (fst s1) < remaining (fst s)"
    by (auto simp add: testNext_fetchElementFunc_def split: prod.splits
        dest: PopSequenceElement_remaining)
  moreover from e have "remaining (fst s2) = remaining (fst s1)"
    using testNext_exec_remaining [of x el "fst s1" "snd s1" "fst s2" "snd s2"] by simp
  moreover from c have "remaining (fst s3) = remaining (fst s2)"
    using testNext_executionCheckFunc_remaining [of x ex' "fst s2" "snd s2" "fst s3" "snd s3"] by simp
  ultimately show "remaining (fst s3) < remaining (fst s)" by simp
qed

lemma testNextCallSequence_body_returns:
  "\<exists>fw1 res. testNextCallSequence_body x fw = Some (fw1, res)"
proof -
  obtain fw1 isNew err where i: "InitializeNextSequence x fw = (fw1, isNew, err)"
    by (metis prod_cases3)
  show ?thesis
  proof (cases err)
    case (Some e)
    with i show ?thesis by (simp add: testNextCallSequence_body_def)
  next
    case None
    from testNext_Execute_returns [of x "(fw1, [])" "[]"] obtain s2 r where
      ex: "ExecuteCallSequenceIteratively (testNext_exec x) (testNext_fetchElementFunc x)
         (testNext_executionCheckFunc x) (fw1, []) [] = Some (s2, r)" by force
    with i None show ?thesis
      by (cases s2; cases r)
         (auto simp add: testNextCallSequence_body_def split: prod.splits bool.splits)
  qed
qed

text \<open>
  C2, as amended. \<open>testNextCallSequence\<close> always returns. When it returns with a nil
  error (the normal return and the return on cancellation), the last thing done to
  the chain is the deferred \<open>RevertToBlockNumber(testingBaseBlockNumber)\<close>, and if that
  revert succeeds the head of the chain is the testing base block right after the
  return. When it returns an error, no revert is attempted: the worker is as the
  body left it.
\<close>

theorem testNextCallSequence_reverts_when_err_nil:
  assumes contract: "\<And>n w w'. RevertToBlockNumber x n w = (w', None) \<Longrightarrow> HeadBlockNumber x w' = n"
  shows "\<exists>fw1 fw' res.
           testNextCallSequence_body x fw = Some (fw1, res)
         \<and> testNextCallSequence x fw = Some (fw', res)
         \<and> testingBaseBlockNumber fw' = testingBaseBlockNumber fw1
         \<and> (if err_is_nil res
            then outside fw' = fst (RevertToBlockNumber x (testingBaseBlockNumber fw1) (outside fw1))
               \<and> (snd (RevertToBlockNumber x (testingBaseBlockNumber fw1) (outside fw1)) = None
                    \<longrightarrow> HeadBlockNumber x (outside fw') = testingBaseBlockNumber fw')
            else fw' = fw1)"
proof -
  from testNextCallSequence_body_returns obtain fw1 res where
    b: "testNextCallSequence_body x fw = Some (fw1, res)" by blast
  let ?fw' = "deferred_revert x (err_is_nil res) fw1"
  have t: "testNextCallSequence x fw = Some (?fw', res)"
    using b by (simp add: testNextCallSequence_def)
  have base: "testingBaseBlockNumber ?fw' = testingBaseBlockNumber fw1"
    by (simp add: deferred_revert_def on_outside_def split: prod.splits)
  have "if err_is_nil res
        then outside ?fw' = fst (RevertToBlockNumber x (testingBaseBlockNumber fw1) (outside fw1))
           \<and> (snd (RevertToBlockNumber x (testingBaseBlockNumber fw1) (outside fw1)) = None
                \<longrightarrow> HeadBlockNumber x (outside ?fw') = testingBaseBlockNumber ?fw')
        else ?fw' = fw1"
  proof (cases "err_is_nil res")
    case True
    obtain w' e where r: "RevertToBlockNumber x (testingBaseBlockNumber fw1) (outside fw1) = (w', e)"
      by (cases "RevertToBlockNumber x (testingBaseBlockNumber fw1) (outside fw1)")
    have o: "outside ?fw' = w'" using True r by (simp add: deferred_revert_def on_outside_def)
    have "e = None \<longrightarrow> HeadBlockNumber x w' = testingBaseBlockNumber fw1"
      using contract r by blast
    with True o r base show ?thesis by simp
  next
    case False
    then show ?thesis by (simp add: deferred_revert_def)
  qed
  with b t base show ?thesis by blast
qed

lemma sim_revert_contract:
  "RevertToBlockNumber (sim_externals t c) n w = (w', None) \<Longrightarrow> HeadBlockNumber (sim_externals t c) w' = n"
  by (auto simp add: sim_externals_simps split: if_splits)

theorem testNextCallSequence_reverts_when_err_nil_witness:
  "\<exists>fw1 fw' res.
     err_is_nil res
     \<and> snd (RevertToBlockNumber (sim_externals [] sim_config) (testingBaseBlockNumber fw1) (outside fw1)) = None
     \<and> testNextCallSequence_body (sim_externals [] sim_config) (sim_worker sim_world0) = Some (fw1, res)
     \<and> testNextCallSequence (sim_externals [] sim_config) (sim_worker sim_world0) = Some (fw', res)
     \<and> HeadBlockNumber (sim_externals [] sim_config) (outside fw') = testingBaseBlockNumber fw'
     \<and> testingBaseBlockNumber fw' = 7"
proof -
  let ?x = "sim_externals [] sim_config"
  let ?g0 = "\<lparr>baseSequence = [], fetchIndex = 0, prefetchModifyCallFunc = None\<rparr> :: nat CallSequenceGenerator"
  let ?m0 = "\<lparr>sequencesTested = 0, callsTested = 0, gasUsed = 0, workerStartupCount = 0, shrinking = False\<rparr>"
  have w: "sim_worker sim_world0 = sim_shape (\<lambda>i. i) ?g0 ?m0"
    by (simp add: sim_worker_def sim_shape_def sim_world0_def)
  from sim_testNext_eval [of "\<lambda>i. i" ?g0 ?m0] w obtain r' g' seq m' where
    ev: "testNextCallSequence ?x (sim_worker sim_world0) = Some (sim_shape r' g' m', Inr (seq, []))"
    by auto
  have "\<exists>fw1 fw' res.
          testNextCallSequence_body ?x (sim_worker sim_world0) = Some (fw1, res)
        \<and> testNextCallSequence ?x (sim_worker sim_world0) = Some (fw', res)
        \<and> testingBaseBlockNumber fw' = testingBaseBlockNumber fw1
        \<and> (if err_is_nil res
           then outside fw' = fst (RevertToBlockNumber ?x (testingBaseBlockNumber fw1) (outside fw1))
              \<and> (snd (RevertToBlockNumber ?x (testingBaseBlockNumber fw1) (outside fw1)) = None
                   \<longrightarrow> HeadBlockNumber ?x (outside fw') = testingBaseBlockNumber fw')
           else fw' = fw1)"
    by (rule testNextCallSequence_reverts_when_err_nil) (rule sim_revert_contract)
  then obtain fw1 fw' res where
    b: "testNextCallSequence_body ?x (sim_worker sim_world0) = Some (fw1, res)" and
    t: "testNextCallSequence ?x (sim_worker sim_world0) = Some (fw', res)" and
    base: "testingBaseBlockNumber fw' = testingBaseBlockNumber fw1" and
    c: "if err_is_nil res
        then outside fw' = fst (RevertToBlockNumber ?x (testingBaseBlockNumber fw1) (outside fw1))
           \<and> (snd (RevertToBlockNumber ?x (testingBaseBlockNumber fw1) (outside fw1)) = None
                \<longrightarrow> HeadBlockNumber ?x (outside fw') = testingBaseBlockNumber fw')
        else fw' = fw1"
    by blast
  from ev t have fw': "fw' = sim_shape r' g' m'" and res: "res = Inr (seq, [])" by simp_all
  have nil: "err_is_nil res" using res by simp
  have head: "HeadBlockNumber ?x (outside fw') = 7" "testingBaseBlockNumber fw' = 7"
    using fw' by (simp_all add: sim_shape_def sim_world0_def sim_externals_simps)
  have ok: "snd (RevertToBlockNumber ?x (testingBaseBlockNumber fw1) (outside fw1)) = None"
  proof (rule ccontr)
    assume n: "snd (RevertToBlockNumber ?x (testingBaseBlockNumber fw1) (outside fw1)) \<noteq> None"
    then have "fst (RevertToBlockNumber ?x (testingBaseBlockNumber fw1) (outside fw1)) = outside fw1"
      and "\<not> testingBaseBlockNumber fw1 \<le> sim_head (outside fw1)"
      by (auto simp add: sim_externals_simps split: if_splits)
    with c nil base head show False
      by (simp add: sim_externals_simps)
  qed
  from nil ok b t head show ?thesis by auto
qed

subsection \<open>testShrunkenCallSequence and shrinkCallSequence\<close>





































subsection \<open>Shrinking on the instance\<close>









end
